theory Spec2Isabelle
  imports Complex_Main "HOL-Library.AList" "HOL-Library.Multiset"
begin

section \<open>Data model\<close>

text \<open>
  The application is a tipping site: moderators publish tips, users record a stake on a
  tip, and every view recomputes profit figures from the rows it fetched.

  Numbers: the columns are \<open>DECIMAL(10,2)\<close> and the client computes on JavaScript
  numbers. They are modelled as exact rationals; the rounding of binary floating point is
  not part of the model. Identifiers (UUIDs) are strings, timestamps are integers.
\<close>

type_synonym uuid = string
type_synonym timestamp = int

text \<open>\<open>CREATE TYPE public.tip_status AS ENUM ('pending', 'won', 'lost', 'void')\<close>\<close>

datatype tip_status = Pending | Won | Lost | Void

text \<open>A row of \<open>public.tips\<close> (the interface \<open>Tip\<close> of the dashboard reads a part of it).\<close>

record Tip =
  tip_id :: uuid
  tip_created_by :: uuid
  tip_match_name :: string
  tip_sport :: string
  tip_bet_type :: string
  tip_odds :: rat
  tip_status :: tip_status
  tip_analysis :: "string option"
  tip_match_start_time :: timestamp
  tip_created_at :: timestamp
  tip_updated_at :: timestamp

text \<open>The interface \<open>TrackingEntry\<close> of the dashboard: a row of \<open>public.user_tracking\<close>
  joined with the owner's profile.\<close>

record TrackingEntry =
  trk_id :: uuid
  trk_stake :: rat
  trk_tip_id :: uuid
  trk_user_id :: uuid
  trk_profiles :: "string option"

text \<open>The interface \<open>TrackingEntry\<close> of the user's history: a row of
  \<open>public.user_tracking\<close> with the tip it references embedded as \<open>tips\<close>.\<close>

record TipInfo =
  ti_match_name :: string
  ti_bet_type :: string
  ti_odds :: rat
  ti_status :: tip_status
  ti_sport :: string

record HistoryEntry =
  he_id :: uuid
  he_stake :: rat
  he_created_at :: timestamp
  he_tips :: TipInfo


section \<open>The user's history (component \<open>UserHistory\<close>)\<close>

definition totalStaked :: "HistoryEntry list \<Rightarrow> rat" where
  "totalStaked entries = foldl (\<lambda>acc e. acc + he_stake e) 0 entries"

definition wonEntries :: "HistoryEntry list \<Rightarrow> HistoryEntry list" where
  "wonEntries entries = filter (\<lambda>e. ti_status (he_tips e) = Won) entries"

definition lostEntries :: "HistoryEntry list \<Rightarrow> HistoryEntry list" where
  "lostEntries entries = filter (\<lambda>e. ti_status (he_tips e) = Lost) entries"

definition totalProfit :: "HistoryEntry list \<Rightarrow> rat" where
  "totalProfit entries =
     foldl (\<lambda>acc e. acc + he_stake e * (ti_odds (he_tips e) - 1)) 0 (wonEntries entries)
     - foldl (\<lambda>acc e. acc + he_stake e) 0 (lostEntries entries)"

definition roi :: "HistoryEntry list \<Rightarrow> rat" where
  "roi entries =
     (if totalStaked entries > 0 then (totalProfit entries / totalStaked entries) * 100 else 0)"

text \<open>The win rate is computed inline where it is rendered; \<open>winRate\<close> is the number
  that is then handed to \<open>toFixed(0)\<close> (or the number 0). The printing of that number is
  not part of the model.\<close>

definition winRate :: "HistoryEntry list \<Rightarrow> rat" where
  "winRate entries =
     (if length (wonEntries entries) + length (lostEntries entries) > 0
      then (of_nat (length (wonEntries entries))
              / of_nat (length (wonEntries entries) + length (lostEntries entries))) * 100
      else 0)"

text \<open>The profit or loss shown in the row of one entry.\<close>

definition pl :: "HistoryEntry \<Rightarrow> rat" where
  "pl e =
     (if ti_status (he_tips e) = Won then he_stake e * (ti_odds (he_tips e) - 1)
      else if ti_status (he_tips e) = Lost then - he_stake e
      else 0)"


section \<open>The moderator dashboard (component \<open>Dashboard\<close>)\<close>

definition totalTips :: "Tip list \<Rightarrow> nat" where
  "totalTips tips = length tips"

definition wonTips :: "Tip list \<Rightarrow> nat" where
  "wonTips tips = length (filter (\<lambda>t. tip_status t = Won) tips)"

definition lostTips :: "Tip list \<Rightarrow> nat" where
  "lostTips tips = length (filter (\<lambda>t. tip_status t = Lost) tips)"

definition totalStakes :: "TrackingEntry list \<Rightarrow> rat" where
  "totalStakes tracking = foldl (\<lambda>acc t. acc + trk_stake t) 0 tracking"

definition wonTipIds :: "Tip list \<Rightarrow> uuid set" where
  "wonTipIds tips = set (map tip_id (filter (\<lambda>t. tip_status t = Won) tips))"

definition lostTipIds :: "Tip list \<Rightarrow> uuid set" where
  "lostTipIds tips = set (map tip_id (filter (\<lambda>t. tip_status t = Lost) tips))"

text \<open>The body of the reducer of \<open>totalProfit\<close>: one tracking row added to the accumulator.\<close>

definition profitStep :: "Tip list \<Rightarrow> rat \<Rightarrow> TrackingEntry \<Rightarrow> rat" where
  "profitStep tips acc t =
     (case List.find (\<lambda>tp. tip_id tp = trk_tip_id t) tips of
        None \<Rightarrow> acc
      | Some tip \<Rightarrow>
          if trk_tip_id t \<in> wonTipIds tips then acc + trk_stake t * (tip_odds tip - 1)
          else if trk_tip_id t \<in> lostTipIds tips then acc - trk_stake t
          else acc)"

definition totalProfit_Dashboard :: "Tip list \<Rightarrow> TrackingEntry list \<Rightarrow> rat" where
  "totalProfit_Dashboard tips tracking = foldl (profitStep tips) 0 tracking"

definition roi_Dashboard :: "Tip list \<Rightarrow> TrackingEntry list \<Rightarrow> rat" where
  "roi_Dashboard tips tracking =
     (if totalStakes tracking > 0
      then (totalProfit_Dashboard tips tracking / totalStakes tracking) * 100 else 0)"


section \<open>The leaderboard (component \<open>Leaderboard\<close>)\<close>

text \<open>A row of the query \<open>user_id, stake, tip_id, tips(odds, status), profiles(username)\<close>;
  the two embedded objects may be null.\<close>

record TipOutcome =
  to_odds :: rat
  to_status :: tip_status

record TrackingRow =
  lb_user_id :: uuid
  lb_stake :: rat
  lb_tip_id :: uuid
  lb_tips :: "TipOutcome option"
  lb_profiles :: "string option"

record LeaderboardEntry =
  user_id :: uuid
  username :: string
  total_profit :: rat
  total_staked :: rat
  wins :: nat
  total_bets :: nat

text \<open>\<open>t.profiles?.username || "User"\<close>\<close>

definition username_or_User :: "string option \<Rightarrow> string" where
  "username_or_User p = (case p of None \<Rightarrow> ''User'' | Some n \<Rightarrow> if n = [] then ''User'' else n)"

text \<open>The body of the \<open>forEach\<close>. \<open>userMap\<close> is a JavaScript \<open>Map\<close>: an association
  list in insertion order, where setting a present key keeps its place.\<close>

definition leaderboardStep ::
  "(uuid \<times> LeaderboardEntry) list \<Rightarrow> TrackingRow \<Rightarrow> (uuid \<times> LeaderboardEntry) list" where
  "leaderboardStep userMap t =
     (case lb_tips t of
        None \<Rightarrow> userMap
      | Some tp \<Rightarrow>
          if to_status tp = Pending \<or> to_status tp = Void then userMap
          else
            let uid = lb_user_id t;
                userMap1 =
                  (if map_of userMap uid = None
                   then AList.update uid
                          \<lparr>user_id = uid, username = username_or_User (lb_profiles t),
                            total_profit = 0, total_staked = 0, wins = 0, total_bets = 0\<rparr>
                          userMap
                   else userMap)
            in (case map_of userMap1 uid of
                  None \<Rightarrow> userMap1
                | Some entry \<Rightarrow>
                    let stake = lb_stake t;
                        entry1 = entry\<lparr>total_staked := total_staked entry + stake,
                                       total_bets := total_bets entry + 1\<rparr>;
                        entry2 =
                          (if to_status tp = Won
                           then entry1\<lparr>total_profit :=
                                          total_profit entry1 + stake * (to_odds tp - 1),
                                        wins := wins entry1 + 1\<rparr>
                           else if to_status tp = Lost
                           then entry1\<lparr>total_profit := total_profit entry1 - stake\<rparr>
                           else entry1)
                    in AList.update uid entry2 userMap1))"

definition groupByUser :: "TrackingRow list \<Rightarrow> (uuid \<times> LeaderboardEntry) list" where
  "groupByUser trackingData = foldl leaderboardStep [] trackingData"

text \<open>\<open>Array.from(userMap.values()).sort((a, b) => b.total_profit - a.total_profit).slice(0, 10)\<close>:
  a stable sort by decreasing profit, then the first ten.\<close>

definition sortedTop10 :: "TrackingRow list \<Rightarrow> LeaderboardEntry list" where
  "sortedTop10 trackingData =
     take 10 (sort_key (\<lambda>e. - total_profit e) (map snd (groupByUser trackingData)))"

text \<open>The state \<open>entries\<close> after \<open>fetchLeaderboard\<close>; without data it returns early.\<close>

definition fetchLeaderboard ::
  "LeaderboardEntry list \<Rightarrow> TrackingRow list option \<Rightarrow> LeaderboardEntry list" where
  "fetchLeaderboard entries trackingData =
     (case trackingData of None \<Rightarrow> entries | Some rows \<Rightarrow> sortedTop10 rows)"

text \<open>The ROI printed with an entry.\<close>

definition entry_roi :: "LeaderboardEntry \<Rightarrow> rat" where
  "entry_roi entry =
     (if total_staked entry > 0 then (total_profit entry / total_staked entry) * 100 else 0)"


section \<open>The storage boundary: constraints and triggers of the schema\<close>

datatype db_error =
  raise_exception string | unique_violation | check_violation | numeric_value_out_of_range

definition anti_cheat_message :: string where
  "anti_cheat_message =
     ''Cannot edit tip details after match has started. Only status can be updated.''"

text \<open>The trigger function \<open>enforce_tip_anti_cheat\<close>, run before each update of a row of
  \<open>tips\<close>. The three columns are \<open>NOT NULL\<close>, so \<open>IS DISTINCT FROM\<close> is inequality.\<close>

definition enforce_tip_anti_cheat :: "timestamp \<Rightarrow> Tip \<Rightarrow> Tip \<Rightarrow> db_error + Tip" where
  "enforce_tip_anti_cheat now OLD NEW =
     (if tip_match_start_time OLD \<le> now then
        (if tip_bet_type NEW \<noteq> tip_bet_type OLD
            \<or> tip_odds NEW \<noteq> tip_odds OLD
            \<or> tip_match_name NEW \<noteq> tip_match_name OLD
         then Inl (raise_exception anti_cheat_message)
         else Inr NEW)
      else Inr NEW)"

text \<open>The trigger function \<open>update_updated_at_column\<close>.\<close>

definition update_updated_at_column :: "timestamp \<Rightarrow> Tip \<Rightarrow> Tip" where
  "update_updated_at_column now NEW = NEW\<lparr>tip_updated_at := now\<rparr>"

text \<open>Both triggers are \<open>BEFORE UPDATE ... FOR EACH ROW\<close>; they run in the order of their
  names, \<open>tip_anti_cheat\<close> before \<open>update_tips_updated_at\<close>.\<close>

definition tips_update_row :: "timestamp \<Rightarrow> Tip \<Rightarrow> Tip \<Rightarrow> db_error + Tip" where
  "tips_update_row now OLD NEW =
     (case enforce_tip_anti_cheat now OLD NEW of
        Inl e \<Rightarrow> Inl e
      | Inr NEW1 \<Rightarrow> Inr (update_updated_at_column now NEW1))"

text \<open>\<open>UPDATE tips SET ... WHERE id = k\<close>, the assignment given as a function of the old
  row. An exception in a trigger aborts the statement.\<close>

fun update_rows :: "timestamp \<Rightarrow> (Tip \<Rightarrow> Tip) \<Rightarrow> uuid \<Rightarrow> Tip list \<Rightarrow> db_error + Tip list" where
  "update_rows now f k [] = Inr []"
| "update_rows now f k (r # rs) =
     (if tip_id r = k then
        (case tips_update_row now r (f r) of
           Inl e \<Rightarrow> Inl e
         | Inr r' \<Rightarrow>
             (case update_rows now f k rs of Inl e \<Rightarrow> Inl e | Inr rs' \<Rightarrow> Inr (r' # rs')))
      else
        (case update_rows now f k rs of Inl e \<Rightarrow> Inl e | Inr rs' \<Rightarrow> Inr (r # rs')))"

text \<open>The table after the statement, and the error it reports if any: an aborted
  statement leaves the table as it was.\<close>

definition tips_update ::
  "timestamp \<Rightarrow> (Tip \<Rightarrow> Tip) \<Rightarrow> uuid \<Rightarrow> Tip list \<Rightarrow> Tip list \<times> db_error option" where
  "tips_update now f k tips =
     (case update_rows now f k tips of
        Inl e \<Rightarrow> (tips, Some e)
      | Inr tips' \<Rightarrow> (tips', None))"

text \<open>A number written to a \<open>DECIMAL(10,2)\<close> column is rounded to two decimals, a half
  away from zero; \<open>cents\<close> is the rounded value in hundredths. A rounded value of
  \<open>10^8\<close> or more does not fit the column.\<close>

definition cents :: "rat \<Rightarrow> int" where
  "cents x = (if x < 0 then - \<lfloor>- x * 100 + 1 / 2\<rfloor> else \<lfloor>x * 100 + 1 / 2\<rfloor>)"

definition decimal_10_2 :: "rat \<Rightarrow> rat option" where
  "decimal_10_2 x = (if \<bar>cents x\<bar> < 10 ^ 10 then Some (of_int (cents x) / 100) else None)"

text \<open>\<open>user_tracking\<close>: the stake is \<open>DECIMAL(10,2)\<close>, with \<open>CHECK (stake > 0)\<close> and
  \<open>UNIQUE(user_id, tip_id)\<close>. The value is brought to the column type first, the check
  is on the value so stored, and uniqueness is looked at last.\<close>

definition user_tracking_insert ::
  "TrackingEntry list \<Rightarrow> TrackingEntry \<Rightarrow> db_error + TrackingEntry list" where
  "user_tracking_insert db r =
     (case decimal_10_2 (trk_stake r) of
        None \<Rightarrow> Inl numeric_value_out_of_range
      | Some stake \<Rightarrow>
          if \<not> stake > 0 then Inl check_violation
          else if \<exists>x \<in> set db. trk_user_id x = trk_user_id r \<and> trk_tip_id x = trk_tip_id r
          then Inl unique_violation
          else Inr (db @ [r\<lparr>trk_stake := stake\<rparr>]))"

text \<open>A row of \<open>tip_reactions\<close>, with the columns the client reads and writes.\<close>

record Reaction =
  r_user_id :: uuid
  r_tip_id :: uuid
  r_reaction_type :: string

text \<open>\<open>tip_reactions\<close>: \<open>UNIQUE(user_id, tip_id, reaction_type)\<close>.\<close>

definition tip_reactions_insert :: "Reaction list \<Rightarrow> Reaction \<Rightarrow> db_error + Reaction list" where
  "tip_reactions_insert db r =
     (if \<exists>x \<in> set db. r_user_id x = r_user_id r \<and> r_tip_id x = r_tip_id r
                       \<and> r_reaction_type x = r_reaction_type r
      then Inl unique_violation
      else Inr (db @ [r]))"

text \<open>\<open>delete().eq("user_id", u).eq("tip_id", t).eq("reaction_type", k)\<close>\<close>

definition tip_reactions_delete :: "Reaction list \<Rightarrow> uuid \<Rightarrow> uuid \<Rightarrow> string \<Rightarrow> Reaction list" where
  "tip_reactions_delete db u t k =
     filter (\<lambda>r. \<not> (r_user_id r = u \<and> r_tip_id r = t \<and> r_reaction_type r = k)) db"

text \<open>A row of \<open>tip_comments\<close> joined with the author's profile.\<close>

record Comment =
  c_id :: uuid
  c_content :: string
  c_created_at :: timestamp
  c_user_id :: uuid
  c_tip_id :: uuid
  c_profiles :: "string option"

text \<open>\<open>select(...).eq("tip_id", tipId).order("created_at", { ascending: true })\<close>\<close>

definition select_tip_comments :: "Comment list \<Rightarrow> uuid \<Rightarrow> Comment list" where
  "select_tip_comments db tipId =
     sort_key c_created_at (filter (\<lambda>c. c_tip_id c = tipId) db)"


section \<open>Settling a tip (\<open>updateTipStatus\<close> of the dashboard)\<close>

datatype toast = toast_error string | toast_success string

definition status_text :: "tip_status \<Rightarrow> string" where
  "status_text s =
     (case s of Pending \<Rightarrow> ''pending'' | Won \<Rightarrow> ''won'' | Lost \<Rightarrow> ''lost'' | Void \<Rightarrow> ''void'')"

definition error_message :: "db_error \<Rightarrow> string" where
  "error_message e = (case e of raise_exception m \<Rightarrow> m | _ \<Rightarrow> [])"

text \<open>The table after the call and the toast shown.\<close>

definition updateTipStatus ::
  "timestamp \<Rightarrow> Tip list \<Rightarrow> uuid \<Rightarrow> tip_status \<Rightarrow> Tip list \<times> toast" where
  "updateTipStatus now tips tipId status =
     (case tips_update now (\<lambda>r. r\<lparr>tip_status := status\<rparr>) tipId tips of
        (tips', Some error) \<Rightarrow> (tips', toast_error (error_message error))
      | (tips', None) \<Rightarrow> (tips', toast_success (''Tip marked as '' @ status_text status)))"


section \<open>Tracking a tip (\<open>handleStake\<close> of the tip card)\<close>

text \<open>\<open>String.prototype.includes\<close>\<close>

fun string_includes :: "string \<Rightarrow> string \<Rightarrow> bool" where
  "string_includes [] sub = (sub = [])"
| "string_includes (c # cs) sub = (take (length sub) (c # cs) = sub \<or> string_includes cs sub)"

text \<open>The table after the call and the toast shown. \<open>stakeNum\<close> is the result of
  \<open>parseFloat\<close>, \<open>None\<close> for \<open>NaN\<close>; \<open>message\<close> is the text the backend gives for an error;
  \<open>new_id\<close> and \<open>profile\<close> are what the backend fills in for the new row.\<close>

definition handleStake ::
  "(db_error \<Rightarrow> string) \<Rightarrow> uuid \<Rightarrow> string option \<Rightarrow> uuid \<Rightarrow> uuid \<Rightarrow> rat option
     \<Rightarrow> TrackingEntry list \<Rightarrow> TrackingEntry list \<times> toast" where
  "handleStake message new_id profile user tip stakeNum db =
     (case stakeNum of
        None \<Rightarrow> (db, toast_error ''Enter a valid stake amount'')
      | Some n \<Rightarrow>
          if n = 0 \<or> n \<le> 0 then (db, toast_error ''Enter a valid stake amount'')
          else
            (case user_tracking_insert db
                    \<lparr>trk_id = new_id, trk_stake = n, trk_tip_id = tip, trk_user_id = user,
                      trk_profiles = profile\<rparr> of
               Inl error \<Rightarrow>
                 (db, if string_includes (message error) ''duplicate''
                      then toast_error ''You already tracked this tip''
                      else toast_error ''Failed to track tip'')
             | Inr db' \<Rightarrow> (db', toast_success ''Tip tracked!'')))"


section \<open>Reactions (\<open>fetchReactions\<close> and \<open>handleReact\<close> of the feed)\<close>

record ReactionTally =
  like :: nat
  fire :: nat
  userLiked :: bool
  userFired :: bool

definition no_reactions :: ReactionTally where
  "no_reactions = \<lparr>like = 0, fire = 0, userLiked = False, userFired = False\<rparr>"

text \<open>The body of the \<open>forEach\<close> of \<open>fetchReactions\<close>; \<open>user\<close> is the signed-in user, if any.\<close>

definition reactionStep ::
  "uuid option \<Rightarrow> (uuid \<rightharpoonup> ReactionTally) \<Rightarrow> Reaction \<Rightarrow> (uuid \<rightharpoonup> ReactionTally)" where
  "reactionStep user m r =
     (let m1 = (if m (r_tip_id r) = None then m(r_tip_id r \<mapsto> no_reactions) else m)
      in case m1 (r_tip_id r) of
           None \<Rightarrow> m1
         | Some e \<Rightarrow>
             if r_reaction_type r = ''like'' then
               (let e1 = e\<lparr>like := like e + 1\<rparr>
                in m1(r_tip_id r \<mapsto> (if Some (r_user_id r) = user then e1\<lparr>userLiked := True\<rparr> else e1)))
             else if r_reaction_type r = ''fire'' then
               (let e1 = e\<lparr>fire := fire e + 1\<rparr>
                in m1(r_tip_id r \<mapsto> (if Some (r_user_id r) = user then e1\<lparr>userFired := True\<rparr> else e1)))
             else m1)"

text \<open>The state \<open>reactions\<close> after \<open>fetchReactions\<close>; without data it stays as it was.\<close>

definition fetchReactions ::
  "uuid option \<Rightarrow> (uuid \<rightharpoonup> ReactionTally) \<Rightarrow> Reaction list option \<Rightarrow> (uuid \<rightharpoonup> ReactionTally)" where
  "fetchReactions user reactions data =
     (case data of None \<Rightarrow> reactions | Some rows \<Rightarrow> foldl (reactionStep user) Map.empty rows)"

text \<open>What a tip card is given: \<open>reactions[tip.id] || { like: 0, fire: 0, ... }\<close>.\<close>

definition shown_reactions :: "(uuid \<rightharpoonup> ReactionTally) \<Rightarrow> uuid \<Rightarrow> ReactionTally" where
  "shown_reactions reactions tip = (case reactions tip of None \<Rightarrow> no_reactions | Some e \<Rightarrow> e)"

text \<open>\<open>handleReact\<close> on the pair of the table \<open>tip_reactions\<close> and the state \<open>reactions\<close>.
  The result of the insert is not looked at; the state is fetched again at the end.\<close>

definition handleReact ::
  "uuid option \<Rightarrow> uuid \<Rightarrow> string \<Rightarrow> Reaction list \<times> (uuid \<rightharpoonup> ReactionTally)
     \<Rightarrow> Reaction list \<times> (uuid \<rightharpoonup> ReactionTally)" where
  "handleReact user tipId type st =
     (case user of
        None \<Rightarrow> st
      | Some uid \<Rightarrow>
          let db = fst st; reactions = snd st;
              current =
                (case reactions tipId of
                   None \<Rightarrow> False
                 | Some e \<Rightarrow> if type = ''like'' then userLiked e else userFired e);
              db' =
                (if current then tip_reactions_delete db uid tipId type
                 else (case tip_reactions_insert db
                               \<lparr>r_user_id = uid, r_tip_id = tipId, r_reaction_type = type\<rparr> of
                         Inl error \<Rightarrow> db
                       | Inr db1 \<Rightarrow> db1))
          in (db', fetchReactions user reactions (Some db')))"

text \<open>The state \<open>reactions\<close> once the feed has loaded. It starts empty, and the effect
  that calls \<open>fetchReactions\<close> runs once, on mount, with the user of the first render:
  the auth context starts with no user and learns of the session later. The effect has
  no dependency on the user (the one that calls \<open>fetchTracking\<close> has), so signing in
  does not fetch the reactions again.\<close>

definition reactions_after_load :: "Reaction list \<Rightarrow> (uuid \<rightharpoonup> ReactionTally)" where
  "reactions_after_load db = fetchReactions None Map.empty (Some db)"


section \<open>Comments (\<open>fetchComments\<close> of the comment list)\<close>

text \<open>The state \<open>comments\<close> after \<open>fetchComments\<close>, given the answer of the backend.\<close>

definition fetchComments :: "Comment list \<Rightarrow> Comment list option \<Rightarrow> Comment list" where
  "fetchComments comments data = (case data of None \<Rightarrow> comments | Some rows \<Rightarrow> rows)"


section \<open>The figures as the specification words them\<close>

text \<open>Stake times (odds - 1) on a won tip, minus the stake on a lost tip, nothing on a
  pending or void tip.\<close>

fun spec_profit :: "rat \<Rightarrow> rat \<Rightarrow> tip_status \<Rightarrow> rat" where
  "spec_profit amount odds Won = amount * (odds - 1)"
| "spec_profit amount odds Lost = - amount"
| "spec_profit amount odds Pending = 0"
| "spec_profit amount odds Void = 0"

text \<open>The contribution the specification gives a dashboard row: the profit of the stake
  on the tip it references, nothing when no tip has that id.\<close>

definition spec_contribution :: "Tip list \<Rightarrow> TrackingEntry \<Rightarrow> rat" where
  "spec_contribution tips t =
     (case List.find (\<lambda>tp. tip_id tp = trk_tip_id t) tips of
        None \<Rightarrow> 0
      | Some tip \<Rightarrow> spec_profit (trk_stake t) (tip_odds tip) (tip_status tip))"

text \<open>ROI as the specification words it: profit / staked * 100 when something is staked,
  else 0.\<close>

definition spec_roi :: "rat \<Rightarrow> rat \<Rightarrow> rat" where
  "spec_roi profit staked = (if staked > 0 then profit / staked * 100 else 0)"

text \<open>The win rate as the specification words it, from the two counts.\<close>

definition spec_winRate :: "nat \<Rightarrow> nat \<Rightarrow> rat" where
  "spec_winRate n_won n_lost =
     (if n_won + n_lost > 0 then of_nat n_won / of_nat (n_won + n_lost) * 100 else 0)"

definition statuses :: "HistoryEntry list \<Rightarrow> tip_status list" where
  "statuses entries = map (\<lambda>e. ti_status (he_tips e)) entries"

text \<open>What settling the tip with id \<open>k\<close> makes of a row.\<close>

definition settled_row :: "timestamp \<Rightarrow> uuid \<Rightarrow> tip_status \<Rightarrow> Tip \<Rightarrow> Tip" where
  "settled_row now k s r = (if tip_id r = k then r\<lparr>tip_status := s, tip_updated_at := now\<rparr> else r)"

text \<open>A stake is settled when its tip is won or lost.\<close>

definition settled :: "TrackingRow \<Rightarrow> bool" where
  "settled t = (case lb_tips t of None \<Rightarrow> False | Some tp \<Rightarrow> to_status tp \<in> {Won, Lost})"

text \<open>The settled stakes of a user, in the order of the rows.\<close>

definition settled_of :: "uuid \<Rightarrow> TrackingRow list \<Rightarrow> TrackingRow list" where
  "settled_of u rows = filter (\<lambda>t. lb_user_id t = u \<and> settled t) rows"

definition row_profit :: "TrackingRow \<Rightarrow> rat" where
  "row_profit t =
     (case lb_tips t of
        None \<Rightarrow> 0
      | Some tp \<Rightarrow> spec_profit (lb_stake t) (to_odds tp) (to_status tp))"

definition row_won :: "TrackingRow \<Rightarrow> bool" where
  "row_won t = (case lb_tips t of None \<Rightarrow> False | Some tp \<Rightarrow> to_status tp = Won)"

text \<open>The entry the specification gives a user: the figures over the user's settled
  stakes, under the display name of the first of them.\<close>

definition spec_entry :: "uuid \<Rightarrow> TrackingRow list \<Rightarrow> LeaderboardEntry" where
  "spec_entry u rows =
     \<lparr>user_id = u,
      username = username_or_User (lb_profiles (hd (settled_of u rows))),
      total_profit = (\<Sum>t\<leftarrow>settled_of u rows. row_profit t),
      total_staked = (\<Sum>t\<leftarrow>settled_of u rows. lb_stake t),
      wins = length (filter row_won (settled_of u rows)),
      total_bets = length (settled_of u rows)\<rparr>"

text \<open>One settled row, seen on the map the association list stands for.\<close>

definition bump :: "LeaderboardEntry \<Rightarrow> TrackingRow \<Rightarrow> LeaderboardEntry" where
  "bump e t = e\<lparr>total_profit := total_profit e + row_profit t,
                total_staked := total_staked e + lb_stake t,
                wins := wins e + (if row_won t then 1 else 0),
                total_bets := total_bets e + 1\<rparr>"

definition fresh_entry :: "TrackingRow \<Rightarrow> LeaderboardEntry" where
  "fresh_entry t = \<lparr>user_id = lb_user_id t, username = username_or_User (lb_profiles t),
                     total_profit = 0, total_staked = 0, wins = 0, total_bets = 0\<rparr>"

text \<open>The tally the specification gives a tip: its reactions counted by kind, and whether
  the viewer has one of each kind; no entry for a tip without reactions.\<close>

definition spec_tally :: "uuid option \<Rightarrow> Reaction list \<Rightarrow> uuid \<Rightarrow> ReactionTally option" where
  "spec_tally user rows t =
     (if \<exists>r \<in> set rows. r_tip_id r = t
      then Some
        \<lparr>like = length (filter (\<lambda>r. r_tip_id r = t \<and> r_reaction_type r = ''like'') rows),
         fire = length (filter (\<lambda>r. r_tip_id r = t \<and> r_reaction_type r = ''fire'') rows),
         userLiked = (\<exists>r \<in> set rows. r_tip_id r = t \<and> r_reaction_type r = ''like''
                        \<and> Some (r_user_id r) = user),
         userFired = (\<exists>r \<in> set rows. r_tip_id r = t \<and> r_reaction_type r = ''fire''
                        \<and> Some (r_user_id r) = user)\<rparr>
      else None)"

text \<open>The reaction the toggle is about.\<close>

definition the_reaction :: "uuid \<Rightarrow> uuid \<Rightarrow> string \<Rightarrow> Reaction" where
  "the_reaction u t k = \<lparr>r_user_id = u, r_tip_id = t, r_reaction_type = k\<rparr>"


section \<open>Example rows\<close>

definition tip_a :: Tip where
  "tip_a = \<lparr>tip_id = ''t-a'', tip_created_by = ''mod'', tip_match_name = ''PSG vs OM'',
     tip_sport = ''Football'', tip_bet_type = ''Over 1.5 goals'', tip_odds = 3,
     tip_status = Won, tip_analysis = None, tip_match_start_time = 1000,
     tip_created_at = 900, tip_updated_at = 900\<rparr>"

definition tip_b :: Tip where
  "tip_b = \<lparr>tip_id = ''t-b'', tip_created_by = ''mod'', tip_match_name = ''OL vs ASSE'',
     tip_sport = ''Football'', tip_bet_type = ''Home win'', tip_odds = 3 / 2,
     tip_status = Lost, tip_analysis = None, tip_match_start_time = 1000,
     tip_created_at = 900, tip_updated_at = 900\<rparr>"

definition trk_1 :: TrackingEntry where
  "trk_1 = \<lparr>trk_id = ''s-1'', trk_stake = 10, trk_tip_id = ''t-a'', trk_user_id = ''u-1'',
     trk_profiles = Some ''ann''\<rparr>"

definition trk_2 :: TrackingEntry where
  "trk_2 = \<lparr>trk_id = ''s-2'', trk_stake = 5, trk_tip_id = ''t-b'', trk_user_id = ''u-2'',
     trk_profiles = Some ''bob''\<rparr>"

text \<open>A stake whose tip is not among the tips fetched.\<close>

definition trk_orphan :: TrackingEntry where
  "trk_orphan = \<lparr>trk_id = ''s-3'', trk_stake = 10, trk_tip_id = ''t-gone'',
     trk_user_id = ''u-1'', trk_profiles = None\<rparr>"

definition info_won :: TipInfo where
  "info_won = \<lparr>ti_match_name = ''PSG vs OM'', ti_bet_type = ''Over 1.5 goals'', ti_odds = 3,
     ti_status = Won, ti_sport = ''Football''\<rparr>"

definition info_lost :: TipInfo where
  "info_lost = \<lparr>ti_match_name = ''OL vs ASSE'', ti_bet_type = ''Home win'', ti_odds = 3 / 2,
     ti_status = Lost, ti_sport = ''Football''\<rparr>"

definition info_pending :: TipInfo where
  "info_pending = \<lparr>ti_match_name = ''Nice vs Lens'', ti_bet_type = ''Draw'', ti_odds = 2,
     ti_status = Pending, ti_sport = ''Football''\<rparr>"

definition hist_1 :: HistoryEntry where
  "hist_1 = \<lparr>he_id = ''s-1'', he_stake = 10, he_created_at = 950, he_tips = info_won\<rparr>"

definition hist_2 :: HistoryEntry where
  "hist_2 = \<lparr>he_id = ''s-2'', he_stake = 5, he_created_at = 960, he_tips = info_lost\<rparr>"

definition hist_3 :: HistoryEntry where
  "hist_3 = \<lparr>he_id = ''s-3'', he_stake = 5, he_created_at = 970, he_tips = info_pending\<rparr>"

text \<open>A pending tip whose match starts at time 1000.\<close>

definition tip_c :: Tip where
  "tip_c = \<lparr>tip_id = ''t-c'', tip_created_by = ''mod'', tip_match_name = ''Nice vs Lens'',
     tip_sport = ''Football'', tip_bet_type = ''Draw'', tip_odds = 2,
     tip_status = Pending, tip_analysis = None, tip_match_start_time = 1000,
     tip_created_at = 900, tip_updated_at = 900\<rparr>"

definition comment_1 :: Comment where
  "comment_1 = \<lparr>c_id = ''c-1'', c_content = ''nice pick'', c_created_at = 30,
     c_user_id = ''u-1'', c_tip_id = ''t-a'', c_profiles = Some ''ann''\<rparr>"

definition comment_2 :: Comment where
  "comment_2 = \<lparr>c_id = ''c-2'', c_content = ''too risky'', c_created_at = 10,
     c_user_id = ''u-2'', c_tip_id = ''t-a'', c_profiles = Some ''bob''\<rparr>"

definition comment_3 :: Comment where
  "comment_3 = \<lparr>c_id = ''c-3'', c_content = ''good luck'', c_created_at = 20,
     c_user_id = ''u-2'', c_tip_id = ''t-b'', c_profiles = None\<rparr>"

text \<open>The texts of a PostgreSQL backend: the message of a unique violation starts with
  "duplicate key value violates unique constraint".\<close>

definition backend_message :: "db_error \<Rightarrow> string" where
  "backend_message e =
     (case e of
        raise_exception m \<Rightarrow> m
      | unique_violation \<Rightarrow> ''duplicate key value violates unique constraint''
      | check_violation \<Rightarrow> ''new row violates check constraint''
      | numeric_value_out_of_range \<Rightarrow> ''numeric field overflow'')"

text \<open>Rows of the leaderboard query: a won and a pending stake of one user, a lost stake
  of a second, a pending stake of a third.\<close>

definition row_1 :: TrackingRow where
  "row_1 = \<lparr>lb_user_id = ''u-1'', lb_stake = 10, lb_tip_id = ''t-a'',
     lb_tips = Some \<lparr>to_odds = 3, to_status = Won\<rparr>, lb_profiles = Some ''ann''\<rparr>"

definition row_2 :: TrackingRow where
  "row_2 = \<lparr>lb_user_id = ''u-2'', lb_stake = 5, lb_tip_id = ''t-b'',
     lb_tips = Some \<lparr>to_odds = 3 / 2, to_status = Lost\<rparr>, lb_profiles = Some ''bob''\<rparr>"

definition row_3 :: TrackingRow where
  "row_3 = \<lparr>lb_user_id = ''u-3'', lb_stake = 8, lb_tip_id = ''t-c'',
     lb_tips = Some \<lparr>to_odds = 2, to_status = Pending\<rparr>, lb_profiles = Some ''cy''\<rparr>"

definition row_4 :: TrackingRow where
  "row_4 = \<lparr>lb_user_id = ''u-1'', lb_stake = 4, lb_tip_id = ''t-c'',
     lb_tips = Some \<lparr>to_odds = 2, to_status = Pending\<rparr>, lb_profiles = Some ''ann''\<rparr>"

definition entry_1 :: LeaderboardEntry where
  "entry_1 = \<lparr>user_id = ''u-1'', username = ''ann'', total_profit = 20, total_staked = 10,
     wins = 1, total_bets = 1\<rparr>"

definition entry_2 :: LeaderboardEntry where
  "entry_2 = \<lparr>user_id = ''u-2'', username = ''bob'', total_profit = - 5, total_staked = 5,
     wins = 0, total_bets = 1\<rparr>"

text \<open>Reactions on one tip: two likes and a fire.\<close>

definition reactions_db :: "Reaction list" where
  "reactions_db =
     [\<lparr>r_user_id = ''u-1'', r_tip_id = ''t-a'', r_reaction_type = ''like''\<rparr>,
      \<lparr>r_user_id = ''u-2'', r_tip_id = ''t-a'', r_reaction_type = ''like''\<rparr>,
      \<lparr>r_user_id = ''u-2'', r_tip_id = ''t-a'', r_reaction_type = ''fire''\<rparr>]"

lemmas example_defs =
  tip_a_def tip_b_def trk_1_def trk_2_def trk_orphan_def
  info_won_def info_lost_def info_pending_def hist_1_def hist_2_def hist_3_def


section \<open>Sums computed by a reducer\<close>

lemma foldl_add_sum_list:
  fixes f :: "'a \<Rightarrow> rat"
  shows "foldl (\<lambda>acc e. acc + f e) a xs = a + sum_list (map f xs)"
  by (induction xs arbitrary: a) (simp_all add: add.assoc)

lemma totalStaked_sum: "totalStaked entries = sum_list (map he_stake entries)"
  by (simp add: totalStaked_def foldl_add_sum_list)

lemma totalStakes_sum: "totalStakes tracking = sum_list (map trk_stake tracking)"
  by (simp add: totalStakes_def foldl_add_sum_list)

lemma pl_spec_profit:
  "pl e = spec_profit (he_stake e) (ti_odds (he_tips e)) (ti_status (he_tips e))"
  by (cases "ti_status (he_tips e)") (simp_all add: pl_def)

lemma sum_list_pl_split:
  "sum_list (map pl entries) =
     sum_list (map (\<lambda>e. he_stake e * (ti_odds (he_tips e) - 1)) (wonEntries entries))
     - sum_list (map he_stake (lostEntries entries))"
  by (induction entries) (simp_all add: pl_def wonEntries_def lostEntries_def)

lemma totalProfit_sum: "totalProfit entries = sum_list (map pl entries)"
  by (simp add: totalProfit_def foldl_add_sum_list sum_list_pl_split)

text \<open>With unique tip ids, the id sets of the dashboard tell the status of the tip found.\<close>

lemma find_Some_mem:
  "List.find P xs = Some x \<Longrightarrow> x \<in> set xs \<and> P x"
  by (induction xs) (auto split: if_splits)

lemma distinct_ids_same_tip:
  assumes "distinct (map tip_id tips)" "a \<in> set tips" "b \<in> set tips" "tip_id a = tip_id b"
  shows "a = b"
  using assms by (meson distinct_map inj_onD)

lemma wonTipIds_iff:
  assumes "distinct (map tip_id tips)"
    and "List.find (\<lambda>tp. tip_id tp = k) tips = Some tip"
  shows "k \<in> wonTipIds tips \<longleftrightarrow> tip_status tip = Won"
proof -
  from assms(2) have mem: "tip \<in> set tips" and key: "tip_id tip = k"
    using find_Some_mem [of "\<lambda>tp. tip_id tp = k" tips tip] by simp_all
  show ?thesis
  proof
    assume "k \<in> wonTipIds tips"
    then obtain t where t: "t \<in> set tips" "tip_status t = Won" "tip_id t = k"
      by (auto simp: wonTipIds_def)
    with mem key assms(1) have "t = tip"
      using distinct_ids_same_tip [of tips t tip] by simp
    with t show "tip_status tip = Won" by simp
  next
    assume "tip_status tip = Won"
    with mem key show "k \<in> wonTipIds tips"
      by (force simp: wonTipIds_def)
  qed
qed

lemma lostTipIds_iff:
  assumes "distinct (map tip_id tips)"
    and "List.find (\<lambda>tp. tip_id tp = k) tips = Some tip"
  shows "k \<in> lostTipIds tips \<longleftrightarrow> tip_status tip = Lost"
proof -
  from assms(2) have mem: "tip \<in> set tips" and key: "tip_id tip = k"
    using find_Some_mem [of "\<lambda>tp. tip_id tp = k" tips tip] by simp_all
  show ?thesis
  proof
    assume "k \<in> lostTipIds tips"
    then obtain t where t: "t \<in> set tips" "tip_status t = Lost" "tip_id t = k"
      by (auto simp: lostTipIds_def)
    with mem key assms(1) have "t = tip"
      using distinct_ids_same_tip [of tips t tip] by simp
    with t show "tip_status tip = Lost" by simp
  next
    assume "tip_status tip = Lost"
    with mem key show "k \<in> lostTipIds tips"
      by (force simp: lostTipIds_def)
  qed
qed

lemma profitStep_contribution:
  assumes "distinct (map tip_id tips)"
  shows "profitStep tips acc t = acc + spec_contribution tips t"
proof (cases "List.find (\<lambda>tp. tip_id tp = trk_tip_id t) tips")
  case None
  then show ?thesis by (simp add: profitStep_def spec_contribution_def)
next
  case (Some tip)
  note w = wonTipIds_iff [OF assms Some] and l = lostTipIds_iff [OF assms Some]
  show ?thesis
    by (cases "tip_status tip") (simp_all add: profitStep_def spec_contribution_def Some w l)
qed

lemma foldl_profitStep:
  assumes "distinct (map tip_id tips)"
  shows "foldl (profitStep tips) a tracking = a + sum_list (map (spec_contribution tips) tracking)"
  by (induction tracking arbitrary: a) (simp_all add: profitStep_contribution [OF assms] add.assoc)

lemma totalProfit_Dashboard_sum:
  assumes "distinct (map tip_id tips)"
  shows "totalProfit_Dashboard tips tracking = sum_list (map (spec_contribution tips) tracking)"
  by (simp add: totalProfit_Dashboard_def foldl_profitStep [OF assms])

text \<open>A row whose tip is not found leaves the accumulator as it is, whatever the ids.\<close>

lemma profitStep_unresolved:
  "List.find (\<lambda>tp. tip_id tp = trk_tip_id t) tips = None \<Longrightarrow> profitStep tips acc t = acc"
  by (simp add: profitStep_def)


section \<open>Claims on the accounting figures\<close>

text \<open>
  C1. The profit of a stake is stake * (odds - 1) when the tip it references is won, minus
  the stake when it is lost, and 0 when it is pending or void. This is the figure shown
  per entry of the history, and what each stake adds to the total profit of the history
  and, the tip ids being unique as the primary key makes them, to the total profit of the
  dashboard.
\<close>

theorem C1_realized_profit:
  "(ti_status (he_tips w) = Won \<longrightarrow> pl w = he_stake w * (ti_odds (he_tips w) - 1))
   \<and> (ti_status (he_tips l) = Lost \<longrightarrow> pl l = - he_stake l)
   \<and> (ti_status (he_tips p) \<in> {Pending, Void} \<longrightarrow> pl p = 0)
   \<and> totalProfit entries =
       (\<Sum>x\<leftarrow>entries. spec_profit (he_stake x) (ti_odds (he_tips x)) (ti_status (he_tips x)))
   \<and> (distinct (map tip_id tips) \<longrightarrow>
        totalProfit_Dashboard tips tracking = (\<Sum>t\<leftarrow>tracking. spec_contribution tips t))"
proof -
  have "totalProfit entries =
      (\<Sum>x\<leftarrow>entries. spec_profit (he_stake x) (ti_odds (he_tips x)) (ti_status (he_tips x)))"
    unfolding totalProfit_sum by (rule arg_cong [where f = sum_list]) (simp add: pl_spec_profit)
  moreover have "distinct (map tip_id tips) \<longrightarrow>
      totalProfit_Dashboard tips tracking = (\<Sum>t\<leftarrow>tracking. spec_contribution tips t)"
    by (simp add: totalProfit_Dashboard_sum)
  moreover have "ti_status (he_tips w) = Won \<longrightarrow> pl w = he_stake w * (ti_odds (he_tips w) - 1)"
    by (simp add: pl_def)
  moreover have "ti_status (he_tips l) = Lost \<longrightarrow> pl l = - he_stake l"
    by (simp add: pl_def)
  moreover have "ti_status (he_tips p) \<in> {Pending, Void} \<longrightarrow> pl p = 0"
    by (auto simp: pl_def)
  ultimately show ?thesis by blast
qed

theorem C1_realized_profit_witness:
  "ti_status (he_tips hist_1) = Won \<and> pl hist_1 = 20
   \<and> ti_status (he_tips hist_2) = Lost \<and> pl hist_2 = - 5
   \<and> ti_status (he_tips hist_3) \<in> {Pending, Void} \<and> pl hist_3 = 0
   \<and> totalProfit [hist_1, hist_2, hist_3] = 15
   \<and> distinct (map tip_id [tip_a, tip_b])
   \<and> totalProfit_Dashboard [tip_a, tip_b] [trk_1, trk_2, trk_orphan] = 15"
  using C1_realized_profit [of hist_1 hist_2 hist_3 "[hist_1, hist_2, hist_3]"
      "[tip_a, tip_b]" "[trk_1, trk_2, trk_orphan]"]
  by (simp add: example_defs spec_contribution_def)

text \<open>
  C4. The total staked is the sum of the stake amounts of all entries, whatever the status
  of their tips; the ROI is total profit / total staked * 100 when the total staked is
  positive and 0 when it is 0, in the history and on the dashboard alike. The empty list
  gives 0, not an error.
\<close>

theorem C4_totalStaked_roi:
  "totalStaked entries = (\<Sum>e\<leftarrow>entries. he_stake e)
   \<and> totalStaked (map (\<lambda>e. e\<lparr>he_tips := g e\<rparr>) entries) = totalStaked entries
   \<and> roi entries = spec_roi (totalProfit entries) (totalStaked entries)
   \<and> (totalStaked entries = 0 \<longrightarrow> roi entries = 0)
   \<and> roi [] = 0
   \<and> totalStakes tracking = (\<Sum>t\<leftarrow>tracking. trk_stake t)
   \<and> roi_Dashboard tips tracking =
        spec_roi (totalProfit_Dashboard tips tracking) (totalStakes tracking)
   \<and> (totalStakes tracking = 0 \<longrightarrow> roi_Dashboard tips tracking = 0)
   \<and> roi_Dashboard tips [] = 0"
proof -
  have "totalStaked (map (\<lambda>e. e\<lparr>he_tips := g e\<rparr>) entries) = totalStaked entries"
    by (simp add: totalStaked_sum comp_def)
  moreover have "roi [] = 0" by (simp add: roi_def totalStaked_def)
  moreover have "roi_Dashboard tips [] = 0" by (simp add: roi_Dashboard_def totalStakes_def)
  ultimately show ?thesis
    by (simp add: totalStaked_sum totalStakes_sum roi_def roi_Dashboard_def spec_roi_def)
qed

theorem C4_totalStaked_roi_witness:
  "totalStaked [hist_1, hist_2, hist_3] = 20
   \<and> roi [hist_1, hist_2, hist_3] = 75
   \<and> totalStaked [] = 0 \<and> roi [] = 0
   \<and> totalStakes [trk_1, trk_2, trk_orphan] = 25
   \<and> roi_Dashboard [tip_a, tip_b] [trk_1, trk_2, trk_orphan] = 60
   \<and> totalStakes [] = 0 \<and> roi_Dashboard [tip_a, tip_b] [] = 0"
  using C4_totalStaked_roi [of "[hist_1, hist_2, hist_3]" he_tips "[trk_1, trk_2, trk_orphan]" "[tip_a, tip_b]"]
    C4_totalStaked_roi [of "[]" he_tips "[]" "[tip_a, tip_b]"]
  by (simp add: example_defs spec_roi_def totalProfit_def wonEntries_def lostEntries_def
      totalProfit_Dashboard_def profitStep_def wonTipIds_def lostTipIds_def)

lemma length_filter_count_list:
  "length (filter (\<lambda>e. f e = k) xs) = count_list (map f xs) k"
  by (induction xs) simp_all

lemma wonEntries_settled:
  "wonEntries (filter (\<lambda>e. ti_status (he_tips e) \<in> {Won, Lost}) entries) = wonEntries entries"
  by (induction entries) (simp_all add: wonEntries_def)

lemma lostEntries_settled:
  "lostEntries (filter (\<lambda>e. ti_status (he_tips e) \<in> {Won, Lost}) entries) = lostEntries entries"
  by (induction entries) (simp_all add: lostEntries_def)

text \<open>
  C8. The win rate is wins / (wins + losses) * 100 when wins + losses > 0 and 0 otherwise,
  where wins counts the entries on a won tip and losses those on a lost tip; entries on
  pending or void tips change nothing.
\<close>

theorem C8_winRate:
  "winRate entries =
      spec_winRate (count_list (statuses entries) Won) (count_list (statuses entries) Lost)
   \<and> length (wonEntries entries) = count_list (statuses entries) Won
   \<and> length (lostEntries entries) = count_list (statuses entries) Lost
   \<and> winRate (filter (\<lambda>e. ti_status (he_tips e) \<in> {Won, Lost}) entries) = winRate entries"
proof -
  have w: "length (wonEntries entries) = count_list (statuses entries) Won"
    by (simp add: wonEntries_def statuses_def length_filter_count_list)
  have l: "length (lostEntries entries) = count_list (statuses entries) Lost"
    by (simp add: lostEntries_def statuses_def length_filter_count_list)
  have r: "winRate entries =
      spec_winRate (count_list (statuses entries) Won) (count_list (statuses entries) Lost)"
    unfolding winRate_def spec_winRate_def w l by simp
  have s: "winRate (filter (\<lambda>e. ti_status (he_tips e) \<in> {Won, Lost}) entries) = winRate entries"
    unfolding winRate_def wonEntries_settled lostEntries_settled by simp
  from w l r s show ?thesis by simp
qed

theorem C8_winRate_witness:
  "winRate [hist_1, hist_2, hist_3] = 50 \<and> winRate [hist_3] = 0
   \<and> winRate [hist_1, hist_1, hist_2, hist_3] = 200 / 3"
  using C8_winRate [of "[hist_1, hist_2, hist_3]"] C8_winRate [of "[hist_3]"]
    C8_winRate [of "[hist_1, hist_1, hist_2, hist_3]"]
  by (simp add: example_defs spec_winRate_def statuses_def)

lemma foldl_profitStep_unresolved:
  assumes "List.find (\<lambda>tp. tip_id tp = trk_tip_id s) tips = None"
  shows "foldl (profitStep tips) a (xs @ s # ys) = foldl (profitStep tips) a (xs @ ys)"
  by (simp add: profitStep_unresolved [OF assms])

text \<open>
  C5, as stated: a stake whose tip id resolves to no fetched tip has no effect on any
  figure of the dashboard. It fails: the total of the stakes, and with it the ROI, count
  the stake.
\<close>

theorem C5_unresolved_stake_counterexample:
  "List.find (\<lambda>tp. tip_id tp = trk_tip_id trk_orphan) [tip_a, tip_b] = None
   \<and> totalStakes [trk_1, trk_orphan] \<noteq> totalStakes [trk_1]
   \<and> roi_Dashboard [tip_a, tip_b] [trk_1, trk_orphan] \<noteq> roi_Dashboard [tip_a, tip_b] [trk_1]"
  by (simp add: example_defs totalStakes_def roi_Dashboard_def
      totalProfit_Dashboard_def profitStep_def wonTipIds_def lostTipIds_def)

text \<open>
  C5, amended: a stake whose tip id resolves to no fetched tip adds nothing to the total
  profit (the counts of won and lost tips do not read the stakes at all); the total of
  the stakes still includes its amount, and the ROI is taken over that total.
\<close>

theorem C5_unresolved_stake_amended:
  assumes "List.find (\<lambda>tp. tip_id tp = trk_tip_id s) tips = None"
  shows "totalProfit_Dashboard tips (xs @ s # ys) = totalProfit_Dashboard tips (xs @ ys)
    \<and> totalStakes (xs @ s # ys) = totalStakes (xs @ ys) + trk_stake s
    \<and> roi_Dashboard tips (xs @ s # ys) =
        (if totalStakes (xs @ ys) + trk_stake s > 0
         then totalProfit_Dashboard tips (xs @ ys) / (totalStakes (xs @ ys) + trk_stake s) * 100
         else 0)"
proof -
  have p: "totalProfit_Dashboard tips (xs @ s # ys) = totalProfit_Dashboard tips (xs @ ys)"
    unfolding totalProfit_Dashboard_def by (rule foldl_profitStep_unresolved [OF assms])
  have q: "totalStakes (xs @ s # ys) = totalStakes (xs @ ys) + trk_stake s"
    by (simp add: totalStakes_sum)
  show ?thesis
    unfolding roi_Dashboard_def p q by simp
qed

theorem C5_unresolved_stake_amended_witness:
  "List.find (\<lambda>tp. tip_id tp = trk_tip_id trk_orphan) [tip_a, tip_b] = None
   \<and> totalProfit_Dashboard [tip_a, tip_b] [trk_1, trk_orphan, trk_2] = 15
   \<and> totalProfit_Dashboard [tip_a, tip_b] [trk_1, trk_2] = 15
   \<and> totalStakes [trk_1, trk_orphan, trk_2] = 25
   \<and> totalStakes [trk_1, trk_2] = 15
   \<and> roi_Dashboard [tip_a, tip_b] [trk_1, trk_orphan, trk_2] = 60"
proof -
  have h: "List.find (\<lambda>tp. tip_id tp = trk_tip_id trk_orphan) [tip_a, tip_b] = None"
    by (simp add: example_defs)
  show ?thesis
    using h C5_unresolved_stake_amended [OF h, of "[trk_1]" "[trk_2]"]
    by (simp add: example_defs totalStakes_def
        totalProfit_Dashboard_def profitStep_def wonTipIds_def lostTipIds_def)
qed


section \<open>Claims on the storage boundary and the operations on it\<close>

lemma tips_update_row_rejected:
  assumes "tip_match_start_time OLD \<le> now"
    and "tip_match_name NEW \<noteq> tip_match_name OLD \<or> tip_bet_type NEW \<noteq> tip_bet_type OLD
         \<or> tip_odds NEW \<noteq> tip_odds OLD"
  shows "tips_update_row now OLD NEW = Inl (raise_exception anti_cheat_message)"
  using assms by (auto simp: tips_update_row_def enforce_tip_anti_cheat_def)

lemma tips_update_row_status:
  "tips_update_row now OLD (OLD\<lparr>tip_status := s\<rparr>) = Inr (OLD\<lparr>tip_status := s, tip_updated_at := now\<rparr>)"
  by (simp add: tips_update_row_def enforce_tip_anti_cheat_def update_updated_at_column_def)

lemma update_rows_error:
  "update_rows now f k tips = Inl e \<Longrightarrow> e = raise_exception anti_cheat_message"
proof (induction tips arbitrary: e)
  case Nil
  then show ?case by simp
next
  case (Cons r rs)
  then show ?case
    by (auto simp: tips_update_row_def enforce_tip_anti_cheat_def split: if_splits sum.splits)
qed

lemma update_rows_rejected:
  assumes "r \<in> set tips" "tip_id r = k" "tips_update_row now r (f r) = Inl e0"
  shows "\<exists>e. update_rows now f k tips = Inl e"
  using assms
proof (induction tips)
  case Nil
  then show ?case by simp
next
  case (Cons a rs)
  then show ?case by (auto split: sum.splits)
qed

lemma update_rows_status:
  "update_rows now (\<lambda>r. r\<lparr>tip_status := s\<rparr>) k tips = Inr (map (settled_row now k s) tips)"
  by (induction tips) (simp_all add: tips_update_row_status settled_row_def)

text \<open>
  C2. Once the match start time of a tip is not after now, an update of its row that
  changes the match name, the bet type or the odds is rejected with the exception of the
  anti-cheat trigger, and the statement leaves the table as it was; an update that changes
  only the status passes the trigger (the row gets the status, and the time of the update),
  so settling a tip from the dashboard succeeds. Before the match start the trigger
  rejects nothing.
\<close>

theorem C2_anti_cheat:
  "(tip_match_start_time OLD \<le> now
      \<and> (tip_match_name NEW \<noteq> tip_match_name OLD \<or> tip_bet_type NEW \<noteq> tip_bet_type OLD
           \<or> tip_odds NEW \<noteq> tip_odds OLD)
      \<longrightarrow> enforce_tip_anti_cheat now OLD NEW = Inl (raise_exception anti_cheat_message)
          \<and> tips_update_row now OLD NEW = Inl (raise_exception anti_cheat_message))
   \<and> (r \<in> set tips \<and> tip_id r = k \<and> tip_match_start_time r \<le> now
      \<and> (tip_match_name (f r) \<noteq> tip_match_name r \<or> tip_bet_type (f r) \<noteq> tip_bet_type r
           \<or> tip_odds (f r) \<noteq> tip_odds r)
      \<longrightarrow> tips_update now f k tips = (tips, Some (raise_exception anti_cheat_message)))
   \<and> enforce_tip_anti_cheat now OLD (OLD\<lparr>tip_status := s\<rparr>) = Inr (OLD\<lparr>tip_status := s\<rparr>)
   \<and> tips_update_row now OLD (OLD\<lparr>tip_status := s\<rparr>)
        = Inr (OLD\<lparr>tip_status := s, tip_updated_at := now\<rparr>)
   \<and> updateTipStatus now tips k s
        = (map (settled_row now k s) tips, toast_success (''Tip marked as '' @ status_text s))
   \<and> (now' < tip_match_start_time OLD' \<longrightarrow> enforce_tip_anti_cheat now' OLD' NEW' = Inr NEW')"
proof -
  have a: "tip_match_start_time OLD \<le> now
      \<and> (tip_match_name NEW \<noteq> tip_match_name OLD \<or> tip_bet_type NEW \<noteq> tip_bet_type OLD
           \<or> tip_odds NEW \<noteq> tip_odds OLD)
      \<longrightarrow> enforce_tip_anti_cheat now OLD NEW = Inl (raise_exception anti_cheat_message)
          \<and> tips_update_row now OLD NEW = Inl (raise_exception anti_cheat_message)"
    by (auto simp: tips_update_row_def enforce_tip_anti_cheat_def)
  have b: "r \<in> set tips \<and> tip_id r = k \<and> tip_match_start_time r \<le> now
      \<and> (tip_match_name (f r) \<noteq> tip_match_name r \<or> tip_bet_type (f r) \<noteq> tip_bet_type r
           \<or> tip_odds (f r) \<noteq> tip_odds r)
      \<longrightarrow> tips_update now f k tips = (tips, Some (raise_exception anti_cheat_message))"
  proof
    assume h: "r \<in> set tips \<and> tip_id r = k \<and> tip_match_start_time r \<le> now
      \<and> (tip_match_name (f r) \<noteq> tip_match_name r \<or> tip_bet_type (f r) \<noteq> tip_bet_type r
           \<or> tip_odds (f r) \<noteq> tip_odds r)"
    then have "tips_update_row now r (f r) = Inl (raise_exception anti_cheat_message)"
      by (intro tips_update_row_rejected) simp_all
    with h obtain e where e: "update_rows now f k tips = Inl e"
      using update_rows_rejected [of r tips k now f] by blast
    then have "e = raise_exception anti_cheat_message"
      by (rule update_rows_error)
    with e show "tips_update now f k tips = (tips, Some (raise_exception anti_cheat_message))"
      by (simp add: tips_update_def)
  qed
  have c: "enforce_tip_anti_cheat now OLD (OLD\<lparr>tip_status := s\<rparr>) = Inr (OLD\<lparr>tip_status := s\<rparr>)"
    by (simp add: enforce_tip_anti_cheat_def)
  have d: "updateTipStatus now tips k s
        = (map (settled_row now k s) tips, toast_success (''Tip marked as '' @ status_text s))"
    by (simp add: updateTipStatus_def tips_update_def update_rows_status)
  have e: "now' < tip_match_start_time OLD' \<longrightarrow> enforce_tip_anti_cheat now' OLD' NEW' = Inr NEW'"
    by (simp add: enforce_tip_anti_cheat_def)
  from a b c d e tips_update_row_status [of now OLD s] show ?thesis
    by blast
qed

theorem C2_anti_cheat_witness:
  "tip_match_start_time tip_c \<le> 2000
   \<and> tip_odds (tip_c\<lparr>tip_odds := 5\<rparr>) \<noteq> tip_odds tip_c
   \<and> tips_update_row 2000 tip_c (tip_c\<lparr>tip_odds := 5\<rparr>) = Inl (raise_exception anti_cheat_message)
   \<and> tip_c \<in> set [tip_a, tip_c]
   \<and> tips_update 2000 (\<lambda>r. r\<lparr>tip_odds := 5\<rparr>) ''t-c'' [tip_a, tip_c]
        = ([tip_a, tip_c], Some (raise_exception anti_cheat_message))
   \<and> updateTipStatus 2000 [tip_a, tip_c] ''t-c'' Won
        = ([tip_a, tip_c\<lparr>tip_status := Won, tip_updated_at := 2000\<rparr>],
           toast_success ''Tip marked as won'')
   \<and> (500 :: int) < tip_match_start_time tip_c
   \<and> enforce_tip_anti_cheat 500 tip_c (tip_c\<lparr>tip_odds := 5\<rparr>) = Inr (tip_c\<lparr>tip_odds := 5\<rparr>)"
  using C2_anti_cheat [of tip_c 2000 "tip_c\<lparr>tip_odds := 5\<rparr>" tip_c "[tip_a, tip_c]" "''t-c''"
      "\<lambda>r. r\<lparr>tip_odds := 5\<rparr>" Won 500 tip_c "tip_c\<lparr>tip_odds := 5\<rparr>"]
  by (simp add: tip_c_def tip_a_def settled_row_def status_text_def)

text \<open>
  C9. The comment list of a tip holds exactly the comments that reference the tip, each
  once, in ascending order of creation time.
\<close>

theorem C9_comment_list:
  "mset (fetchComments comments (Some (select_tip_comments db tipId)))
     = filter_mset (\<lambda>c. c_tip_id c = tipId) (mset db)
   \<and> sorted (map c_created_at (fetchComments comments (Some (select_tip_comments db tipId))))
   \<and> set (fetchComments comments (Some (select_tip_comments db tipId)))
     = {c \<in> set db. c_tip_id c = tipId}"
  by (simp add: fetchComments_def select_tip_comments_def)

theorem C9_comment_list_witness:
  "fetchComments [] (Some (select_tip_comments [comment_1, comment_2, comment_3] ''t-a''))
     = [comment_2, comment_1]
   \<and> sorted (map c_created_at [comment_2, comment_1])"
  using C9_comment_list [of "[]" "[comment_1, comment_2, comment_3]" "''t-a''"]
  by (simp add: fetchComments_def select_tip_comments_def comment_1_def comment_2_def comment_3_def)

lemma user_tracking_insert_duplicate:
  assumes "\<exists>x \<in> set db. trk_user_id x = trk_user_id r \<and> trk_tip_id x = trk_tip_id r"
  shows "\<exists>e. user_tracking_insert db r = Inl e"
  using assms by (simp add: user_tracking_insert_def split: option.splits)

lemma handleStake_duplicate:
  assumes "\<exists>x \<in> set db. trk_user_id x = u \<and> trk_tip_id x = t"
  shows "\<exists>m. handleStake message i p u t stakeNum db = (db, toast_error m)"
proof (cases stakeNum)
  case None
  then show ?thesis by (simp add: handleStake_def)
next
  case (Some n)
  from assms obtain e where "user_tracking_insert db
      \<lparr>trk_id = i, trk_stake = n, trk_tip_id = t, trk_user_id = u, trk_profiles = p\<rparr> = Inl e"
    using user_tracking_insert_duplicate
      [of db "\<lparr>trk_id = i, trk_stake = n, trk_tip_id = t, trk_user_id = u, trk_profiles = p\<rparr>"]
    by auto
  with Some show ?thesis by (simp add: handleStake_def)
qed

lemma cents_example_7: "cents 7 = 700"
  by (simp add: cents_def floor_eq_iff)

lemma cents_example_sub_cent: "cents (1 / 1000) = 0"
  by (simp add: cents_def floor_eq_iff)

text \<open>
  C7, as stated: tracking a tip the user already tracks fails on the uniqueness
  constraint and is surfaced as "You already tracked this tip". It fails for an amount
  below half a cent: the column stores it as 0.00, the check constraint rejects it before
  uniqueness is looked at, and the user is told "Failed to track tip".
\<close>

theorem C7_duplicate_stake_counterexample:
  "(\<exists>x \<in> set [trk_1, trk_2]. trk_user_id x = ''u-1'' \<and> trk_tip_id x = ''t-a'')
   \<and> (0 :: rat) < 1 / 1000
   \<and> user_tracking_insert [trk_1, trk_2]
         \<lparr>trk_id = ''s-9'', trk_stake = 1 / 1000, trk_tip_id = ''t-a'', trk_user_id = ''u-1'',
           trk_profiles = Some ''ann''\<rparr> = Inl check_violation
   \<and> handleStake backend_message ''s-9'' (Some ''ann'') ''u-1'' ''t-a'' (Some (1 / 1000))
         [trk_1, trk_2]
       = ([trk_1, trk_2], toast_error ''Failed to track tip'')"
  by (simp add: handleStake_def user_tracking_insert_def decimal_10_2_def cents_example_sub_cent
      backend_message_def trk_1_def)

text \<open>
  C7, amended: tracking a tip the user already tracks, with an amount the column stores
  as a positive value, fails on the uniqueness constraint; with a backend whose message
  for that error contains "duplicate" the user is told "You already tracked this tip".
  An insert the check constraint rejects (an amount stored as 0.00) is told apart from
  it: with a message that does not contain "duplicate" it shows the generic "Failed to
  track tip". Whatever the amount, an attempt on a tip already tracked adds no row and
  leaves the figures of the dashboard as they were.
\<close>

theorem C7_duplicate_stake:
  "((\<exists>x \<in> set db. trk_user_id x = u \<and> trk_tip_id x = t) \<and> 0 < n
      \<and> decimal_10_2 n = Some a \<and> 0 < a
      \<and> string_includes (message unique_violation) ''duplicate''
     \<longrightarrow> user_tracking_insert db
           \<lparr>trk_id = i, trk_stake = n, trk_tip_id = t, trk_user_id = u, trk_profiles = p\<rparr>
         = Inl unique_violation
       \<and> handleStake message i p u t (Some n) db
         = (db, toast_error ''You already tracked this tip''))
   \<and> (0 < n' \<and> decimal_10_2 n' = Some a' \<and> \<not> 0 < a'
      \<and> \<not> string_includes (message check_violation) ''duplicate''
     \<longrightarrow> user_tracking_insert db'
           \<lparr>trk_id = i, trk_stake = n', trk_tip_id = t', trk_user_id = u', trk_profiles = p\<rparr>
         = Inl check_violation
       \<and> handleStake message i p u' t' (Some n') db' = (db', toast_error ''Failed to track tip''))
   \<and> ((\<exists>x \<in> set db. trk_user_id x = u \<and> trk_tip_id x = t)
     \<longrightarrow> fst (handleStake message i p u t stakeNum db) = db
       \<and> snd (handleStake message i p u t stakeNum db) \<noteq> toast_success ''Tip tracked!''
       \<and> length (filter (\<lambda>x. trk_user_id x = u \<and> trk_tip_id x = t)
                   (fst (handleStake message i p u t stakeNum db)))
           = length (filter (\<lambda>x. trk_user_id x = u \<and> trk_tip_id x = t) db)
       \<and> totalStakes (fst (handleStake message i p u t stakeNum db)) = totalStakes db
       \<and> totalProfit_Dashboard tips (fst (handleStake message i p u t stakeNum db))
           = totalProfit_Dashboard tips db
       \<and> roi_Dashboard tips (fst (handleStake message i p u t stakeNum db))
           = roi_Dashboard tips db)"
proof -
  have a: "(\<exists>x \<in> set db. trk_user_id x = u \<and> trk_tip_id x = t) \<and> 0 < n
      \<and> decimal_10_2 n = Some a \<and> 0 < a
      \<and> string_includes (message unique_violation) ''duplicate''
     \<longrightarrow> user_tracking_insert db
           \<lparr>trk_id = i, trk_stake = n, trk_tip_id = t, trk_user_id = u, trk_profiles = p\<rparr>
         = Inl unique_violation
       \<and> handleStake message i p u t (Some n) db
         = (db, toast_error ''You already tracked this tip'')"
    by (simp add: handleStake_def user_tracking_insert_def)
  have b: "0 < n' \<and> decimal_10_2 n' = Some a' \<and> \<not> 0 < a'
      \<and> \<not> string_includes (message check_violation) ''duplicate''
     \<longrightarrow> user_tracking_insert db'
           \<lparr>trk_id = i, trk_stake = n', trk_tip_id = t', trk_user_id = u', trk_profiles = p\<rparr>
         = Inl check_violation
       \<and> handleStake message i p u' t' (Some n') db' = (db', toast_error ''Failed to track tip'')"
    by (simp add: handleStake_def user_tracking_insert_def)
  have c: "(\<exists>x \<in> set db. trk_user_id x = u \<and> trk_tip_id x = t)
     \<longrightarrow> fst (handleStake message i p u t stakeNum db) = db
       \<and> snd (handleStake message i p u t stakeNum db) \<noteq> toast_success ''Tip tracked!''
       \<and> length (filter (\<lambda>x. trk_user_id x = u \<and> trk_tip_id x = t)
                   (fst (handleStake message i p u t stakeNum db)))
           = length (filter (\<lambda>x. trk_user_id x = u \<and> trk_tip_id x = t) db)
       \<and> totalStakes (fst (handleStake message i p u t stakeNum db)) = totalStakes db
       \<and> totalProfit_Dashboard tips (fst (handleStake message i p u t stakeNum db))
           = totalProfit_Dashboard tips db
       \<and> roi_Dashboard tips (fst (handleStake message i p u t stakeNum db))
           = roi_Dashboard tips db"
  proof
    assume "\<exists>x \<in> set db. trk_user_id x = u \<and> trk_tip_id x = t"
    then obtain m where m: "handleStake message i p u t stakeNum db = (db, toast_error m)"
      using handleStake_duplicate by blast
    show "fst (handleStake message i p u t stakeNum db) = db
       \<and> snd (handleStake message i p u t stakeNum db) \<noteq> toast_success ''Tip tracked!''
       \<and> length (filter (\<lambda>x. trk_user_id x = u \<and> trk_tip_id x = t)
                   (fst (handleStake message i p u t stakeNum db)))
           = length (filter (\<lambda>x. trk_user_id x = u \<and> trk_tip_id x = t) db)
       \<and> totalStakes (fst (handleStake message i p u t stakeNum db)) = totalStakes db
       \<and> totalProfit_Dashboard tips (fst (handleStake message i p u t stakeNum db))
           = totalProfit_Dashboard tips db
       \<and> roi_Dashboard tips (fst (handleStake message i p u t stakeNum db))
           = roi_Dashboard tips db"
      unfolding m by simp
  qed
  from a b c show ?thesis by blast
qed

theorem C7_duplicate_stake_witness:
  "(\<exists>x \<in> set [trk_1, trk_2]. trk_user_id x = ''u-1'' \<and> trk_tip_id x = ''t-a'')
   \<and> (0 :: rat) < 7 \<and> decimal_10_2 7 = Some 7
   \<and> string_includes (backend_message unique_violation) ''duplicate''
   \<and> handleStake backend_message ''s-9'' (Some ''ann'') ''u-1'' ''t-a'' (Some 7) [trk_1, trk_2]
       = ([trk_1, trk_2], toast_error ''You already tracked this tip'')
   \<and> (0 :: rat) < 1 / 1000 \<and> decimal_10_2 (1 / 1000) = Some 0
   \<and> \<not> string_includes (backend_message check_violation) ''duplicate''
   \<and> handleStake backend_message ''s-9'' (Some ''ann'') ''u-3'' ''t-a'' (Some (1 / 1000))
         [trk_1, trk_2]
       = ([trk_1, trk_2], toast_error ''Failed to track tip'')
   \<and> totalStakes (fst (handleStake backend_message ''s-9'' (Some ''ann'') ''u-1'' ''t-a''
         (Some 7) [trk_1, trk_2])) = totalStakes [trk_1, trk_2]"
proof -
  have dup: "\<exists>x \<in> set [trk_1, trk_2]. trk_user_id x = ''u-1'' \<and> trk_tip_id x = ''t-a''"
    by (simp add: trk_1_def)
  have d7: "decimal_10_2 7 = Some 7"
    by (simp add: decimal_10_2_def cents_example_7)
  have d0: "decimal_10_2 (1 / 1000) = Some 0"
    by (simp add: decimal_10_2_def cents_example_sub_cent)
  have msg: "string_includes (backend_message unique_violation) ''duplicate''"
    by (simp add: backend_message_def)
  have gen: "\<not> string_includes (backend_message check_violation) ''duplicate''"
    by (simp add: backend_message_def)
  note c7 = C7_duplicate_stake [where db = "[trk_1, trk_2]" and u = "''u-1''" and t = "''t-a''"
        and n = 7 and a = 7 and message = backend_message and i = "''s-9''"
        and p = "Some ''ann''" and n' = "1 / 1000" and a' = 0 and db' = "[trk_1, trk_2]"
        and u' = "''u-3''" and t' = "''t-a''" and stakeNum = "Some 7"
        and tips = "[tip_a, tip_b]"]
  have p7: "(0 :: rat) < 7" by simp
  have q: "(0 :: rat) < 1 / 1000" by simp
  have z: "\<not> (0 :: rat) < 0" by simp
  from c7 dup p7 d7 msg
  have one: "handleStake backend_message ''s-9'' (Some ''ann'') ''u-1'' ''t-a'' (Some 7)
      [trk_1, trk_2] = ([trk_1, trk_2], toast_error ''You already tracked this tip'')"
    by blast
  from c7 q d0 z gen
  have two: "handleStake backend_message ''s-9'' (Some ''ann'') ''u-3'' ''t-a'' (Some (1 / 1000))
      [trk_1, trk_2] = ([trk_1, trk_2], toast_error ''Failed to track tip'')"
    by blast
  from c7 dup
  have three: "totalStakes (fst (handleStake backend_message ''s-9'' (Some ''ann'') ''u-1''
      ''t-a'' (Some 7) [trk_1, trk_2])) = totalStakes [trk_1, trk_2]"
    by blast
  from dup d7 d0 msg gen one two three p7 q show ?thesis by blast
qed


section \<open>Claims on the leaderboard\<close>

lemma leaderboardStep_unsettled: "\<not> settled t \<Longrightarrow> leaderboardStep m t = m"
  by (cases "lb_tips t"; cases "to_status (the (lb_tips t))")
     (simp_all add: leaderboardStep_def settled_def)

lemma leaderboardStep_settled:
  assumes "settled t"
  shows "map_of (leaderboardStep m t) =
    (map_of m)(lb_user_id t \<mapsto>
       bump (case map_of m (lb_user_id t) of None \<Rightarrow> fresh_entry t | Some e \<Rightarrow> e) t)"
proof -
  from assms obtain tp where tp: "lb_tips t = Some tp" and st: "to_status tp = Won \<or> to_status tp = Lost"
    by (auto simp: settled_def split: option.splits)
  show ?thesis
  proof (cases "map_of m (lb_user_id t)")
    case None
    with tp st show ?thesis
      by (auto simp: leaderboardStep_def Let_def update_conv' bump_def fresh_entry_def
          row_profit_def row_won_def)
  next
    case (Some e)
    with tp st show ?thesis
      by (auto simp: leaderboardStep_def Let_def update_conv' bump_def row_profit_def row_won_def)
  qed
qed

lemma leaderboardStep_distinct:
  "distinct (map fst m) \<Longrightarrow> distinct (map fst (leaderboardStep m t))"
  by (auto simp: leaderboardStep_def Let_def distinct_update split: option.splits)

lemma groupByUser_snoc:
  "groupByUser (rows @ [t]) = leaderboardStep (groupByUser rows) t"
  by (simp add: groupByUser_def)

lemma groupByUser_distinct: "distinct (map fst (groupByUser rows))"
  by (induction rows rule: rev_induct)
     (simp_all add: groupByUser_snoc leaderboardStep_distinct, simp add: groupByUser_def)


lemma settled_of_snoc:
  "settled_of u (rows @ [t]) =
     (if lb_user_id t = u \<and> settled t then settled_of u rows @ [t] else settled_of u rows)"
  by (simp add: settled_of_def)

lemma bump_spec_entry:
  assumes "settled t" "settled_of (lb_user_id t) rows \<noteq> []"
  shows "bump (spec_entry (lb_user_id t) rows) t = spec_entry (lb_user_id t) (rows @ [t])"
  using assms by (simp add: bump_def spec_entry_def settled_of_snoc)

lemma bump_fresh_entry:
  assumes "settled t" "settled_of (lb_user_id t) rows = []"
  shows "bump (fresh_entry t) t = spec_entry (lb_user_id t) (rows @ [t])"
  using assms by (simp add: bump_def fresh_entry_def spec_entry_def settled_of_snoc)

lemma map_of_groupByUser:
  "map_of (groupByUser rows) u =
     (if settled_of u rows = [] then None else Some (spec_entry u rows))"
proof (induction rows rule: rev_induct)
  case Nil
  show ?case by (simp add: groupByUser_def settled_of_def)
next
  case (snoc t rows)
  show ?case
  proof (cases "settled t")
    case False
    with snoc show ?thesis
      by (simp add: groupByUser_snoc leaderboardStep_unsettled settled_of_snoc spec_entry_def)
  next
    case True
    show ?thesis
    proof (cases "lb_user_id t = u")
      case False
      with True snoc show ?thesis
        by (simp add: groupByUser_snoc leaderboardStep_settled settled_of_snoc spec_entry_def)
    next
      case same: True
      have ih: "map_of (groupByUser rows) (lb_user_id t) =
         (if settled_of (lb_user_id t) rows = [] then None
          else Some (spec_entry (lb_user_id t) rows))"
        using snoc same by simp
      have "map_of (groupByUser (rows @ [t])) (lb_user_id t) =
          Some (spec_entry (lb_user_id t) (rows @ [t]))"
        using True ih
        by (simp add: groupByUser_snoc leaderboardStep_settled bump_spec_entry bump_fresh_entry)
      moreover have "settled_of (lb_user_id t) (rows @ [t]) \<noteq> []"
        using True by (simp add: settled_of_snoc)
      ultimately show ?thesis using same by simp
    qed
  qed
qed

lemma groupByUser_entries:
  "e \<in> set (map snd (groupByUser rows)) \<longleftrightarrow>
     (\<exists>u. settled_of u rows \<noteq> [] \<and> e = spec_entry u rows)"
proof
  assume "e \<in> set (map snd (groupByUser rows))"
  then obtain u where "(u, e) \<in> set (groupByUser rows)" by auto
  then have "map_of (groupByUser rows) u = Some e"
    using groupByUser_distinct [of rows] by simp
  then show "\<exists>u. settled_of u rows \<noteq> [] \<and> e = spec_entry u rows"
    by (auto simp: map_of_groupByUser split: if_splits)
next
  assume "\<exists>u. settled_of u rows \<noteq> [] \<and> e = spec_entry u rows"
  then obtain u where u: "settled_of u rows \<noteq> []" "e = spec_entry u rows" by blast
  then have "map_of (groupByUser rows) u = Some e"
    by (simp add: map_of_groupByUser)
  then have "(u, e) \<in> set (groupByUser rows)" by (rule map_of_SomeD)
  then show "e \<in> set (map snd (groupByUser rows))" by force
qed

lemma sortedTop10_entry:
  assumes "e \<in> set (sortedTop10 rows)"
  shows "settled_of (user_id e) rows \<noteq> [] \<and> e = spec_entry (user_id e) rows"
proof -
  from assms have "e \<in> set (map snd (groupByUser rows))"
    unfolding sortedTop10_def using set_take_subset by fastforce
  then obtain u where u: "settled_of u rows \<noteq> []" "e = spec_entry u rows"
    using groupByUser_entries by blast
  then have "user_id e = u" by (simp add: spec_entry_def)
  with u show ?thesis by simp
qed

lemma groupByUser_filter_settled: "groupByUser (filter settled rows) = groupByUser rows"
  by (induction rows rule: rev_induct)
     (simp_all add: groupByUser_snoc leaderboardStep_unsettled)

lemma sortedTop10_sorted:
  "sorted_wrt (\<lambda>a b. total_profit a \<ge> total_profit b) (sortedTop10 rows)"
proof -
  have "sorted (map (\<lambda>e. - total_profit e) (sortedTop10 rows))"
    unfolding sortedTop10_def take_map [symmetric] by (rule sorted_wrt_take) simp
  then show ?thesis by (simp add: sorted_map)
qed


lemma sum_list_map_pos:
  fixes f :: "'a \<Rightarrow> rat"
  assumes "xs \<noteq> []" "\<forall>x \<in> set xs. 0 < f x"
  shows "0 < sum_list (map f xs)"
  using assms
proof (induction xs)
  case Nil
  then show ?case by simp
next
  case (Cons x xs)
  show ?case
  proof (cases "xs = []")
    case True
    with Cons.prems show ?thesis by simp
  next
    case False
    with Cons have "0 < sum_list (map f xs)" by simp
    moreover from Cons.prems have "0 < f x" by simp
    ultimately show ?thesis by (simp add: add_pos_pos)
  qed
qed

lemma leaderboardStep_row_3: "leaderboardStep [] row_3 = []"
  by (simp add: leaderboardStep_def row_3_def)

lemma leaderboardStep_row_2: "leaderboardStep [] row_2 = [(''u-2'', entry_2)]"
  by (simp add: leaderboardStep_def Let_def username_or_User_def row_2_def entry_2_def)

lemma leaderboardStep_row_1:
  "leaderboardStep [(''u-2'', entry_2)] row_1 = [(''u-2'', entry_2), (''u-1'', entry_1)]"
  by (simp add: leaderboardStep_def Let_def username_or_User_def row_1_def entry_1_def)

lemma leaderboardStep_row_4:
  "leaderboardStep [(''u-2'', entry_2), (''u-1'', entry_1)] row_4
     = [(''u-2'', entry_2), (''u-1'', entry_1)]"
  by (simp add: leaderboardStep_def row_4_def)

lemma groupByUser_example:
  "groupByUser [row_3, row_2, row_1, row_4] = [(''u-2'', entry_2), (''u-1'', entry_1)]"
  by (simp add: groupByUser_def leaderboardStep_row_3 leaderboardStep_row_2
      leaderboardStep_row_1 leaderboardStep_row_4)

lemma fetchLeaderboard_example:
  "fetchLeaderboard [] (Some [row_3, row_2, row_1, row_4]) = [entry_1, entry_2]"
  by (simp add: fetchLeaderboard_def sortedTop10_def groupByUser_example)
     (simp add: entry_1_def entry_2_def)

text \<open>
  C3. The leaderboard counts only the stakes on won or lost tips: the rows on pending or
  void tips (or without a tip) can be dropped without changing the result, every entry
  carries the profit, the amount staked, the wins and the number of bets of the settled
  stakes of its user and of nothing else, a user without a settled stake has no entry,
  the entries are in non-increasing order of profit, and there are at most 10.
\<close>

theorem C3_leaderboard:
  "fetchLeaderboard entries (Some rows) = fetchLeaderboard entries (Some (filter settled rows))
   \<and> (\<forall>e \<in> set (fetchLeaderboard entries (Some rows)).
        settled_of (user_id e) rows \<noteq> []
        \<and> total_profit e = (\<Sum>t\<leftarrow>settled_of (user_id e) rows. row_profit t)
        \<and> total_staked e = (\<Sum>t\<leftarrow>settled_of (user_id e) rows. lb_stake t)
        \<and> wins e = length (filter row_won (settled_of (user_id e) rows))
        \<and> total_bets e = length (settled_of (user_id e) rows))
   \<and> ((\<forall>t \<in> set rows. lb_user_id t = u \<longrightarrow> \<not> settled t)
        \<longrightarrow> u \<notin> user_id ` set (fetchLeaderboard entries (Some rows)))
   \<and> sorted_wrt (\<lambda>a b. total_profit a \<ge> total_profit b) (fetchLeaderboard entries (Some rows))
   \<and> length (fetchLeaderboard entries (Some rows)) \<le> 10"
proof -
  have out: "fetchLeaderboard entries (Some rows) = sortedTop10 rows"
    by (simp add: fetchLeaderboard_def)
  have a: "fetchLeaderboard entries (Some rows)
      = fetchLeaderboard entries (Some (filter settled rows))"
    by (simp add: fetchLeaderboard_def sortedTop10_def groupByUser_filter_settled)
  have b: "\<forall>e \<in> set (sortedTop10 rows).
        settled_of (user_id e) rows \<noteq> []
        \<and> total_profit e = (\<Sum>t\<leftarrow>settled_of (user_id e) rows. row_profit t)
        \<and> total_staked e = (\<Sum>t\<leftarrow>settled_of (user_id e) rows. lb_stake t)
        \<and> wins e = length (filter row_won (settled_of (user_id e) rows))
        \<and> total_bets e = length (settled_of (user_id e) rows)"
  proof
    fix e assume "e \<in> set (sortedTop10 rows)"
    then have ne: "settled_of (user_id e) rows \<noteq> []"
      and eq: "e = spec_entry (user_id e) rows"
      using sortedTop10_entry [of e rows] by simp_all
    have "total_profit (spec_entry (user_id e) rows)
          = (\<Sum>t\<leftarrow>settled_of (user_id e) rows. row_profit t)"
      and "total_staked (spec_entry (user_id e) rows)
          = (\<Sum>t\<leftarrow>settled_of (user_id e) rows. lb_stake t)"
      and "wins (spec_entry (user_id e) rows)
          = length (filter row_won (settled_of (user_id e) rows))"
      and "total_bets (spec_entry (user_id e) rows) = length (settled_of (user_id e) rows)"
      by (simp_all add: spec_entry_def)
    with ne eq show "settled_of (user_id e) rows \<noteq> []
        \<and> total_profit e = (\<Sum>t\<leftarrow>settled_of (user_id e) rows. row_profit t)
        \<and> total_staked e = (\<Sum>t\<leftarrow>settled_of (user_id e) rows. lb_stake t)
        \<and> wins e = length (filter row_won (settled_of (user_id e) rows))
        \<and> total_bets e = length (settled_of (user_id e) rows)"
      by metis
  qed
  have c: "(\<forall>t \<in> set rows. lb_user_id t = u \<longrightarrow> \<not> settled t)
        \<longrightarrow> u \<notin> user_id ` set (sortedTop10 rows)"
  proof
    assume h: "\<forall>t \<in> set rows. lb_user_id t = u \<longrightarrow> \<not> settled t"
    then have "settled_of u rows = []"
      by (auto simp: settled_of_def filter_empty_conv)
    then show "u \<notin> user_id ` set (sortedTop10 rows)"
      using sortedTop10_entry [of _ rows] by auto
  qed
  have d: "length (sortedTop10 rows) \<le> 10"
    by (simp add: sortedTop10_def)
  from a b c d sortedTop10_sorted [of rows] show ?thesis
    unfolding out by blast
qed

theorem C3_leaderboard_witness:
  "fetchLeaderboard [] (Some [row_3, row_2, row_1, row_4]) = [entry_1, entry_2]
   \<and> list_all (\<lambda>t. lb_user_id t = ''u-3'' \<longrightarrow> \<not> settled t) [row_3, row_2, row_1, row_4]
   \<and> ''u-3'' \<notin> user_id ` set (fetchLeaderboard [] (Some [row_3, row_2, row_1, row_4]))
   \<and> settled_of (user_id entry_1) [row_3, row_2, row_1, row_4] \<noteq> []
   \<and> total_staked entry_1
       = (\<Sum>t\<leftarrow>settled_of (user_id entry_1) [row_3, row_2, row_1, row_4]. lb_stake t)
   \<and> total_bets entry_1 = length (settled_of (user_id entry_1) [row_3, row_2, row_1, row_4])
   \<and> length (fetchLeaderboard [] (Some [row_3, row_2, row_1, row_4])) \<le> 10"
proof -
  note c3 = C3_leaderboard [of "[]" "[row_3, row_2, row_1, row_4]" "''u-3''"]
  have h: "\<forall>t \<in> set [row_3, row_2, row_1, row_4]. lb_user_id t = ''u-3'' \<longrightarrow> \<not> settled t"
    by (simp add: settled_def row_1_def row_2_def row_3_def row_4_def)
  have m: "entry_1 \<in> set (fetchLeaderboard [] (Some [row_3, row_2, row_1, row_4]))"
    by (simp add: fetchLeaderboard_example)
  from c3 h have a: "''u-3'' \<notin> user_id ` set (fetchLeaderboard [] (Some [row_3, row_2, row_1, row_4]))"
    by blast
  from c3 m have b: "settled_of (user_id entry_1) [row_3, row_2, row_1, row_4] \<noteq> []
    \<and> total_staked entry_1
       = (\<Sum>t\<leftarrow>settled_of (user_id entry_1) [row_3, row_2, row_1, row_4]. lb_stake t)
    \<and> total_bets entry_1 = length (settled_of (user_id entry_1) [row_3, row_2, row_1, row_4])"
    by blast
  from c3 have c: "length (fetchLeaderboard [] (Some [row_3, row_2, row_1, row_4])) \<le> 10"
    by blast
  from h have h': "list_all (\<lambda>t. lb_user_id t = ''u-3'' \<longrightarrow> \<not> settled t)
      [row_3, row_2, row_1, row_4]"
    by (simp only: list_all_iff)
  from h' a b c fetchLeaderboard_example show ?thesis by blast
qed

text \<open>
  C10. With every stake amount positive, as the check constraint of the table makes it,
  every entry the aggregation produces, and so every entry of the leaderboard, has a
  positive amount staked and at least one bet; its ROI is then profit / staked * 100,
  never the fallback 0 for nothing staked.
\<close>

theorem C10_entries_positive:
  assumes "\<forall>t \<in> set rows. 0 < lb_stake t"
  shows "\<forall>e \<in> set (map snd (groupByUser rows)) \<union> set (fetchLeaderboard entries (Some rows)).
           0 < total_staked e \<and> 1 \<le> total_bets e
           \<and> entry_roi e = total_profit e / total_staked e * 100"
proof
  fix e
  assume "e \<in> set (map snd (groupByUser rows)) \<union> set (fetchLeaderboard entries (Some rows))"
  then have "e \<in> set (map snd (groupByUser rows))"
    unfolding fetchLeaderboard_def sortedTop10_def using set_take_subset by fastforce
  then obtain u where ne: "settled_of u rows \<noteq> []" and eq: "e = spec_entry u rows"
    using groupByUser_entries by blast
  have "\<forall>t \<in> set (settled_of u rows). 0 < lb_stake t"
    using assms by (simp add: settled_of_def)
  with ne have "0 < sum_list (map lb_stake (settled_of u rows))"
    by (rule sum_list_map_pos)
  then have staked: "0 < total_staked e"
    by (simp add: eq spec_entry_def)
  from ne have "1 \<le> total_bets e"
    by (cases "settled_of u rows") (simp_all add: eq spec_entry_def)
  with staked show "0 < total_staked e \<and> 1 \<le> total_bets e
      \<and> entry_roi e = total_profit e / total_staked e * 100"
    by (simp add: entry_roi_def)
qed

theorem C10_entries_positive_witness:
  "list_all (\<lambda>t. 0 < lb_stake t) [row_3, row_2, row_1, row_4]
   \<and> entry_1 \<in> set (fetchLeaderboard [] (Some [row_3, row_2, row_1, row_4]))
   \<and> 0 < total_staked entry_1 \<and> 1 \<le> total_bets entry_1 \<and> entry_roi entry_1 = 200"
proof -
  have h: "\<forall>t \<in> set [row_3, row_2, row_1, row_4]. 0 < lb_stake t"
    by (simp add: row_1_def row_2_def row_3_def row_4_def)
  have m: "entry_1 \<in> set (fetchLeaderboard [] (Some [row_3, row_2, row_1, row_4]))"
    by (simp add: fetchLeaderboard_example)
  from C10_entries_positive [OF h, of "[]"] m
  have "0 < total_staked entry_1 \<and> 1 \<le> total_bets entry_1
      \<and> entry_roi entry_1 = total_profit entry_1 / total_staked entry_1 * 100"
    by blast
  moreover from h have "list_all (\<lambda>t. 0 < lb_stake t) [row_3, row_2, row_1, row_4]"
    by (simp only: list_all_iff)
  ultimately show ?thesis using m by (simp add: entry_1_def)
qed


section \<open>Claims on the reactions\<close>

lemma reactionStep_spec_tally:
  "reactionStep user (spec_tally user rows) x = spec_tally user (rows @ [x])"
proof (rule ext)
  fix t
  show "reactionStep user (spec_tally user rows) x t = spec_tally user (rows @ [x]) t"
  proof (cases "r_tip_id x = t")
    case False
    then show ?thesis
      by (auto simp: reactionStep_def Let_def spec_tally_def split: option.splits)
  next
    case True
    then show ?thesis
      by (cases "\<exists>r \<in> set rows. r_tip_id r = t")
         (auto simp: reactionStep_def Let_def spec_tally_def no_reactions_def)
  qed
qed

lemma foldl_reactionStep:
  "foldl (reactionStep user) Map.empty rows = spec_tally user rows"
proof (induction rows rule: rev_induct)
  case Nil
  show ?case by (rule ext) (simp add: spec_tally_def)
next
  case (snoc x xs)
  then show ?case by (simp add: reactionStep_spec_tally)
qed

lemma fetchReactions_spec_tally:
  "fetchReactions user reactions (Some rows) = spec_tally user rows"
  by (simp add: fetchReactions_def foldl_reactionStep)


lemma Reaction_eq_iff:
  "r = the_reaction u t k \<longleftrightarrow> r_user_id r = u \<and> r_tip_id r = t \<and> r_reaction_type r = k"
  by (cases r) (simp add: the_reaction_def)

lemma tip_reactions_delete_filter:
  "tip_reactions_delete db u t k = filter (\<lambda>r. r \<noteq> the_reaction u t k) db"
  by (simp add: tip_reactions_delete_def Reaction_eq_iff)

lemma tip_reactions_insert_mem:
  "tip_reactions_insert db (the_reaction u t k) =
     (if the_reaction u t k \<in> set db then Inl unique_violation
      else Inr (db @ [the_reaction u t k]))"
proof -
  have "(\<exists>x \<in> set db. r_user_id x = u \<and> r_tip_id x = t \<and> r_reaction_type x = k)
      \<longleftrightarrow> the_reaction u t k \<in> set db"
    by (metis Reaction_eq_iff)
  then show ?thesis
    by (simp add: tip_reactions_insert_def the_reaction_def)
qed

text \<open>On a state fetched for the viewer, the flag the toggle reads tells whether the
  viewer's reaction of that kind is in the table.\<close>

lemma current_flag:
  assumes "k = ''like'' \<or> k = ''fire''"
  shows "(case spec_tally (Some u) db t of
            None \<Rightarrow> False
          | Some e \<Rightarrow> if k = ''like'' then userLiked e else userFired e)
         \<longleftrightarrow> the_reaction u t k \<in> set db"
proof -
  have "the_reaction u t k \<in> set db \<longleftrightarrow>
      (\<exists>r \<in> set db. r_tip_id r = t \<and> r_reaction_type r = k \<and> r_user_id r = u)"
    by (metis Reaction_eq_iff)
  with assms show ?thesis
    by (auto simp: spec_tally_def)
qed

lemma handleReact_synced:
  assumes "k = ''like'' \<or> k = ''fire''"
  shows "handleReact (Some u) t k (db, spec_tally (Some u) db) =
     (if the_reaction u t k \<in> set db
      then (filter (\<lambda>r. r \<noteq> the_reaction u t k) db,
            spec_tally (Some u) (filter (\<lambda>r. r \<noteq> the_reaction u t k) db))
      else (db @ [the_reaction u t k], spec_tally (Some u) (db @ [the_reaction u t k])))"
proof -
  have ins: "tip_reactions_insert db \<lparr>r_user_id = u, r_tip_id = t, r_reaction_type = k\<rparr> =
     (if the_reaction u t k \<in> set db then Inl unique_violation
      else Inr (db @ [the_reaction u t k]))"
    using tip_reactions_insert_mem [of db u t k] by (simp add: the_reaction_def)
  show ?thesis
    unfolding handleReact_def
    by (simp add: Let_def current_flag [OF assms] ins tip_reactions_delete_filter
        fetchReactions_spec_tally)
qed

lemma spec_tally_mset:
  assumes "mset a = mset b"
  shows "spec_tally user a = spec_tally user b"
proof -
  have len: "length (filter P a) = length (filter P b)" for P :: "Reaction \<Rightarrow> bool"
    using assms by (metis mset_filter size_mset)
  have st: "set a = set b"
    using assms by (rule mset_eq_setD)
  show ?thesis
    by (rule ext) (simp add: spec_tally_def len st)
qed

lemma filter_neq_id:
  "x \<notin> set db \<Longrightarrow> filter (\<lambda>r. r \<noteq> x) db = db"
  by (induction db) auto

lemma mset_remove_add:
  assumes "distinct db" "x \<in> set db"
  shows "mset (filter (\<lambda>r. r \<noteq> x) db @ [x]) = mset db"
  using assms
proof (induction db)
  case Nil
  then show ?case by simp
next
  case (Cons a db)
  show ?case
  proof (cases "a = x")
    case True
    with Cons.prems have "x \<notin> set db" by simp
    then have "filter (\<lambda>r. r \<noteq> x) (a # db) = db"
      using True filter_neq_id [of x db] by simp
    then show ?thesis using True by simp
  next
    case False
    with Cons have "mset (filter (\<lambda>r. r \<noteq> x) db @ [x]) = mset db" by simp
    with False show ?thesis by simp
  qed
qed

lemma filter_neq_append:
  assumes "x \<notin> set db"
  shows "filter (\<lambda>r. r \<noteq> x) (db @ [x]) = db"
  using assms by (simp add: filter_neq_id)


lemma tip_reactions_insert_distinct:
  assumes "distinct db"
  shows "distinct (case tip_reactions_insert db r of Inl e \<Rightarrow> db | Inr db1 \<Rightarrow> db1)"
proof (cases "\<exists>x \<in> set db. r_user_id x = r_user_id r \<and> r_tip_id x = r_tip_id r
                       \<and> r_reaction_type x = r_reaction_type r")
  case True
  with assms show ?thesis by (simp add: tip_reactions_insert_def)
next
  case False
  then have "r \<notin> set db" by auto
  with assms False show ?thesis by (simp add: tip_reactions_insert_def)
qed

lemma handleReact_distinct:
  assumes "distinct db"
  shows "distinct (fst (handleReact user t k (db, c)))"
proof (cases user)
  case None
  with assms show ?thesis by (simp add: handleReact_def)
next
  case (Some u)
  have del: "distinct (tip_reactions_delete db u t k)"
    using assms by (simp add: tip_reactions_delete_def)
  have ins: "distinct (case tip_reactions_insert db
       \<lparr>r_user_id = u, r_tip_id = t, r_reaction_type = k\<rparr> of Inl e \<Rightarrow> db | Inr db1 \<Rightarrow> db1)"
    using assms by (rule tip_reactions_insert_distinct)
  show ?thesis
    using del ins by (simp add: handleReact_def Some Let_def)
qed

lemma reactions_db_tally:
  "shown_reactions (fetchReactions (Some ''u-1'') Map.empty (Some reactions_db)) ''t-a''
     = \<lparr>like = 2, fire = 1, userLiked = True, userFired = False\<rparr>"
  by (simp add: fetchReactions_spec_tally shown_reactions_def spec_tally_def reactions_db_def)

text \<open>
  On a state fetched for the viewer who toggles, and a table that holds each
  (user, tip, kind) at most once, the toggle is its own inverse: one toggle of like or
  fire removes the viewer's reaction of that kind if the table has it and otherwise adds
  exactly that one row, and a second toggle brings back the rows and, for every tip, the
  counts and the viewer's flags. From any state \<open>c\<close> the table never comes to hold a row
  twice, and without a signed-in user the toggle does nothing.
\<close>

lemma handleReact_twice_synced:
  assumes uniq: "distinct db"
    and sync: "reactions = fetchReactions (Some u) r0 (Some db)"
    and kind: "k = ''like'' \<or> k = ''fire''"
  shows "snd (handleReact (Some u) t k (handleReact (Some u) t k (db, reactions))) = reactions
    \<and> (\<forall>tip. shown_reactions
                 (snd (handleReact (Some u) t k (handleReact (Some u) t k (db, reactions)))) tip
               = shown_reactions reactions tip)
    \<and> mset (fst (handleReact (Some u) t k (handleReact (Some u) t k (db, reactions)))) = mset db
    \<and> (the_reaction u t k \<in> set db \<longrightarrow>
          fst (handleReact (Some u) t k (db, reactions))
            = filter (\<lambda>r. r \<noteq> the_reaction u t k) db
          \<and> the_reaction u t k \<notin> set (fst (handleReact (Some u) t k (db, reactions))))
    \<and> (the_reaction u t k \<notin> set db \<longrightarrow>
          fst (handleReact (Some u) t k (db, reactions)) = db @ [the_reaction u t k])
    \<and> distinct (fst (handleReact (Some u) t k (db, c)))
    \<and> distinct (fst (handleReact (Some u) t k (handleReact (Some u) t k (db, reactions))))
    \<and> handleReact None t k (db, reactions) = (db, reactions)"
proof -
  let ?x = "the_reaction u t k"
  have none: "handleReact None t k (db, reactions) = (db, reactions)"
    by (simp add: handleReact_def)
  have r: "reactions = spec_tally (Some u) db"
    using sync by (simp add: fetchReactions_spec_tally)
  note once = handleReact_synced [OF kind, of u t]
  show ?thesis
  proof (cases "?x \<in> set db")
    case True
    let ?db1 = "filter (\<lambda>r. r \<noteq> ?x) db"
    have one: "handleReact (Some u) t k (db, reactions) = (?db1, spec_tally (Some u) ?db1)"
      using True by (simp add: r once)
    have out: "?x \<notin> set ?db1" by simp
    have two: "handleReact (Some u) t k (?db1, spec_tally (Some u) ?db1)
        = (?db1 @ [?x], spec_tally (Some u) (?db1 @ [?x]))"
      using out by (simp only: once if_False)
    have m: "mset (?db1 @ [?x]) = mset db"
      using uniq True by (rule mset_remove_add)
    have restored: "spec_tally (Some u) (?db1 @ [?x]) = reactions"
      unfolding r using m by (rule spec_tally_mset)
    have d1: "distinct ?db1" using uniq by simp
    have d2: "distinct (?db1 @ [?x])" using uniq by simp
    show ?thesis
      unfolding one two fst_conv snd_conv restored none
      using True m d1 d2 handleReact_distinct [OF uniq, of "Some u" t k c] by simp
  next
    case False
    have one: "handleReact (Some u) t k (db, reactions)
        = (db @ [?x], spec_tally (Some u) (db @ [?x]))"
      using False by (simp add: r once)
    have inn: "?x \<in> set (db @ [?x])" by simp
    have two: "handleReact (Some u) t k (db @ [?x], spec_tally (Some u) (db @ [?x]))
        = (filter (\<lambda>r. r \<noteq> ?x) (db @ [?x]),
           spec_tally (Some u) (filter (\<lambda>r. r \<noteq> ?x) (db @ [?x])))"
      using inn by (simp only: once if_True)
    have f: "filter (\<lambda>r. r \<noteq> ?x) (db @ [?x]) = db"
      using False by (rule filter_neq_append)
    have d1: "distinct (db @ [?x])" using uniq False by simp
    show ?thesis
      unfolding one two f fst_conv snd_conv none
      using False uniq d1 r handleReact_distinct [OF uniq, of "Some u" t k c] by simp
  qed
qed

lemma reactions_after_load_tally:
  "reactions_after_load db = spec_tally None db"
  by (simp add: reactions_after_load_def fetchReactions_spec_tally)

lemma handleReact_after_load_once:
  "handleReact (Some ''u-1'') ''t-a'' ''like'' (reactions_db, spec_tally None reactions_db)
     = (reactions_db, spec_tally (Some ''u-1'') reactions_db)"
proof -
  have flag: "(case spec_tally None reactions_db ''t-a'' of
                 None \<Rightarrow> False
               | Some e \<Rightarrow> if ''like'' = ''like'' then userLiked e else userFired e) = False"
    by (simp add: spec_tally_def reactions_db_def)
  have ins: "tip_reactions_insert reactions_db
      \<lparr>r_user_id = ''u-1'', r_tip_id = ''t-a'', r_reaction_type = ''like''\<rparr>
      = Inl unique_violation"
    by (simp add: tip_reactions_insert_def reactions_db_def)
  show ?thesis
    unfolding handleReact_def
    by (simp only: option.case fst_conv snd_conv Let_def flag ins if_False sum.case
        fetchReactions_spec_tally)
qed

lemma handleReact_after_load_twice:
  "handleReact (Some ''u-1'') ''t-a'' ''like'' (reactions_db, spec_tally (Some ''u-1'') reactions_db)
     = ([\<lparr>r_user_id = ''u-2'', r_tip_id = ''t-a'', r_reaction_type = ''like''\<rparr>,
         \<lparr>r_user_id = ''u-2'', r_tip_id = ''t-a'', r_reaction_type = ''fire''\<rparr>],
        spec_tally (Some ''u-1'')
          [\<lparr>r_user_id = ''u-2'', r_tip_id = ''t-a'', r_reaction_type = ''like''\<rparr>,
           \<lparr>r_user_id = ''u-2'', r_tip_id = ''t-a'', r_reaction_type = ''fire''\<rparr>])"
proof -
  have k: "''like'' = ''like'' \<or> ''like'' = ''fire''" by simp
  have mem: "the_reaction ''u-1'' ''t-a'' ''like'' \<in> set reactions_db"
    by (simp add: reactions_db_def the_reaction_def)
  have del: "filter (\<lambda>r. r \<noteq> the_reaction ''u-1'' ''t-a'' ''like'') reactions_db
      = [\<lparr>r_user_id = ''u-2'', r_tip_id = ''t-a'', r_reaction_type = ''like''\<rparr>,
         \<lparr>r_user_id = ''u-2'', r_tip_id = ''t-a'', r_reaction_type = ''fire''\<rparr>]"
    by (simp add: reactions_db_def the_reaction_def)
  show ?thesis
    using mem by (simp only: handleReact_synced [OF k] if_True del)
qed

text \<open>
  C6. The toggle is meant to be its own inverse: two toggles of the same (user, tip, kind)
  bring the counts and the viewer's flags back. On the state the feed has after a page
  load it is not. The reactions were fetched before the user was known, so the flags say
  the viewer has not liked a tip that the viewer has liked; the first toggle tries to
  insert the viewer's like, the uniqueness constraint rejects it, and the new fetch only
  corrects the flag; the second toggle deletes the like. Two likes are shown at the
  start and one at the end.
\<close>

theorem C6_toggle_after_load:
  "distinct reactions_db
   \<and> the_reaction ''u-1'' ''t-a'' ''like'' \<in> set reactions_db
   \<and> shown_reactions (reactions_after_load reactions_db) ''t-a''
       = \<lparr>like = 2, fire = 1, userLiked = False, userFired = False\<rparr>
   \<and> fst (handleReact (Some ''u-1'') ''t-a'' ''like''
            (reactions_db, reactions_after_load reactions_db))
       = reactions_db
   \<and> shown_reactions
        (snd (handleReact (Some ''u-1'') ''t-a'' ''like''
           (reactions_db, reactions_after_load reactions_db))) ''t-a''
       = \<lparr>like = 2, fire = 1, userLiked = True, userFired = False\<rparr>
   \<and> fst (handleReact (Some ''u-1'') ''t-a'' ''like''
          (handleReact (Some ''u-1'') ''t-a'' ''like''
             (reactions_db, reactions_after_load reactions_db)))
       = [\<lparr>r_user_id = ''u-2'', r_tip_id = ''t-a'', r_reaction_type = ''like''\<rparr>,
          \<lparr>r_user_id = ''u-2'', r_tip_id = ''t-a'', r_reaction_type = ''fire''\<rparr>]
   \<and> shown_reactions
        (snd (handleReact (Some ''u-1'') ''t-a'' ''like''
           (handleReact (Some ''u-1'') ''t-a'' ''like''
              (reactions_db, reactions_after_load reactions_db)))) ''t-a''
       = \<lparr>like = 1, fire = 1, userLiked = False, userFired = False\<rparr>
   \<and> shown_reactions
        (snd (handleReact (Some ''u-1'') ''t-a'' ''like''
           (handleReact (Some ''u-1'') ''t-a'' ''like''
              (reactions_db, reactions_after_load reactions_db)))) ''t-a''
       \<noteq> shown_reactions (reactions_after_load reactions_db) ''t-a''"
proof -
  have d: "distinct reactions_db"
    by (simp add: reactions_db_def)
  have mem: "the_reaction ''u-1'' ''t-a'' ''like'' \<in> set reactions_db"
    by (simp add: reactions_db_def the_reaction_def)
  have s0: "shown_reactions (spec_tally None reactions_db) ''t-a''
       = \<lparr>like = 2, fire = 1, userLiked = False, userFired = False\<rparr>"
    by (simp add: shown_reactions_def spec_tally_def reactions_db_def)
  have s1: "shown_reactions (spec_tally (Some ''u-1'') reactions_db) ''t-a''
       = \<lparr>like = 2, fire = 1, userLiked = True, userFired = False\<rparr>"
    by (simp add: shown_reactions_def spec_tally_def reactions_db_def)
  have s2: "shown_reactions (spec_tally (Some ''u-1'')
          [\<lparr>r_user_id = ''u-2'', r_tip_id = ''t-a'', r_reaction_type = ''like''\<rparr>,
           \<lparr>r_user_id = ''u-2'', r_tip_id = ''t-a'', r_reaction_type = ''fire''\<rparr>]) ''t-a''
       = \<lparr>like = 1, fire = 1, userLiked = False, userFired = False\<rparr>"
    by (simp add: shown_reactions_def spec_tally_def)
  show ?thesis
    unfolding reactions_after_load_tally handleReact_after_load_once
      handleReact_after_load_twice fst_conv snd_conv s0 s1 s2
    using d mem by simp
qed

end
